theory Spec2Isabelle
  imports Main "HOL-Library.Word"
begin

unbundle bit_operations_syntax

section \<open>Data model of \<^verbatim>\<open>src/main.cpp\<close>\<close>

text \<open>
  The program is a class hierarchy of UI objects that point at each other: a frame holds
  a vector of child pointers, every object holds a pointer to its parent. The embedding
  keeps the pointers: an object is a record, a pointer is an address (\<open>None\<close> is
  \<^verbatim>\<open>NULL\<close>), and the heap maps every address to the object stored there. A method
  of the source takes the heap and the address of \<^verbatim>\<open>this\<close> and returns the
  updated heap.

  C++ \<^verbatim>\<open>int\<close> values are modelled as mathematical integers: signed overflow is
  undefined behaviour in the source, so the model describes the executions without it.
  Pixels are bytes (\<open>8 word\<close>), the label's \<^verbatim>\<open>uint16_t\<close> fields are \<open>16 word\<close>.
\<close>

type_synonym byte = "8 word"
type_synonym ref = nat

text \<open>\<^verbatim>\<open>struct area { int x; int y; int width; int height; }\<close>\<close>

record area =
  area_x :: int
  area_y :: int
  area_width :: int
  area_height :: int

text \<open>\<^verbatim>\<open>enum layer_t\<close>, with the integer value the loops compare it to.\<close>

datatype layer_t = LAYER_BG | LAYER_LOWER | LAYER_CENTRE | LAYER_UPPER | LAYER_TOP | LAYER_OVERLAY


text \<open>The dynamic class of an object: it selects the override a virtual call runs.\<close>

datatype kind = UiLabel | UiFrame | UiButton | UiImage | UiIcon | UiHwImage | UiModal | UiManager

text \<open>
  The sprite an object draws on (\<^verbatim>\<open>TFT_eSprite surface\<close>, a class of the display
  library): its size and its frame buffer, one byte per pixel; \<open>None\<close> is the null
  pointer \<^verbatim>\<open>frameBuffer(1)\<close> returns for a sprite that was never created.
\<close>

record sprite =
  sprite_width :: int
  sprite_height :: int
  frameBuffer :: "byte list option"

text \<open>
  What a button's \<^verbatim>\<open>std::function\<close> can be bound to: one of the three handlers of a
  modal (\<^verbatim>\<open>std::bind(&UiModal::okPressed, this, ...)\<close>), or a function of the
  application, known by a number.
\<close>

datatype handler = ClosePressed ref | OkPressed ref | CancelPressed ref | AppHandler nat

text \<open>
  One record for all classes: the fields of \<^verbatim>\<open>UiObj\<close>, then those of
  \<^verbatim>\<open>UiLabel\<close>, \<^verbatim>\<open>UiFrame\<close>, \<^verbatim>\<open>UiButton\<close>, \<^verbatim>\<open>UiModal\<close> and
  \<^verbatim>\<open>UiManager\<close> that the modelled methods read or write (colours, fonts and
  alignment are left out). \<^verbatim>\<open>UiLabel\<close> and \<^verbatim>\<open>UiFrame\<close> each declare a field
  \<^verbatim>\<open>initialised\<close> of their own that hides the one of the base class; they are
  three fields here, as they are three in the object.
\<close>

record uiobj =
  kind :: kind
  obj_x :: int
  obj_y :: int
  obj_width :: int
  obj_height :: int
  parent :: "ref option"
  surface :: sprite
  updated :: bool
  exposed :: bool
  hardwareDraw :: bool
  unbuffered :: bool
  visible :: bool
  initialised :: bool
  visibilityChanged :: bool
  newParent :: bool
  drawn :: bool
  layer :: layer_t
  updateArea :: area
  exposeArea :: area
  label_text :: string
  label_initialised :: bool
  hasOutline :: bool
  outlineThickness :: "16 word"
  customFont :: bool
  textSize :: "16 word"
  autosize :: bool
  resizeNeeded :: bool
  xPad :: "16 word"
  yPad :: "16 word"
  hasPreRender :: bool
  objects :: "ref list"
  frame_initialised :: bool
  hwFrame :: bool
  itemsChanged :: bool
  callback :: "nat option"
  stdCallback :: "handler option"
  useStdFunction :: bool
  result :: int
  modal :: "ref option"

type_synonym heap = "ref \<Rightarrow> uiobj"

text \<open>
  What stops a call other than returning: a null pointer dereferenced, or memory read or
  written outside a buffer.
\<close>

datatype fault = NullDeref | OutOfBounds

section \<open>\<^verbatim>\<open>UiObj\<close>: geometry and the parent chain\<close>

definition getArea :: "uiobj \<Rightarrow> area" where
  "getArea this =
     \<lparr>area_x = obj_x this, area_y = obj_y this,
      area_width = obj_width this, area_height = obj_height this\<rparr>"

text \<open>
  \<^verbatim>\<open>topLevel\<close> follows the parent pointers in a \<^verbatim>\<open>while (true)\<close> loop, and
  \<^verbatim>\<open>getAbsolutePos\<close> recurses along them. On a cyclic chain neither returns: that
  is the value \<open>None\<close>.
\<close>

partial_function (option) topLevel :: "heap \<Rightarrow> ref \<Rightarrow> ref option" where
  "topLevel h obj =
     (case parent (h obj) of
        None \<Rightarrow> Some obj
      | Some p \<Rightarrow> topLevel h p)"

partial_function (option) getAbsolutePos :: "heap \<Rightarrow> ref \<Rightarrow> area option" where
  "getAbsolutePos h this =
     (case parent (h this) of
        None \<Rightarrow> Some (getArea (h this))
      | Some p \<Rightarrow>
          Option.bind (getAbsolutePos h p) (\<lambda>parentArea.
            Some \<lparr>area_x = obj_x (h this) + area_x parentArea,
                  area_y = obj_y (h this) + area_y parentArea,
                  area_width = obj_width (h this),
                  area_height = obj_height (h this)\<rparr>))"

section \<open>Compositing: \<^verbatim>\<open>copyToParent\<close> and \<^verbatim>\<open>packToGrey\<close>\<close>

text \<open>
  \<^verbatim>\<open>memcpy(dst + d, src + s, n)\<close> on two buffers. The length is a \<^verbatim>\<open>size_t\<close>: a
  negative \<^verbatim>\<open>int\<close> becomes a huge count, which is a fault here, as is every range
  outside its buffer and a null source.
\<close>

definition memcpy :: "byte list \<Rightarrow> int \<Rightarrow> byte list option \<Rightarrow> int \<Rightarrow> int \<Rightarrow> fault + byte list" where
  "memcpy dst d src s n =
     (if n = 0 then Inr dst
      else case src of
        None \<Rightarrow> Inl NullDeref
      | Some sbuf \<Rightarrow>
          if 0 < n \<and> 0 \<le> d \<and> d + n \<le> int (length dst) \<and> 0 \<le> s \<and> s + n \<le> int (length sbuf)
          then Inr (take (nat d) dst @ take (nat n) (drop (nat s) sbuf) @ drop (nat (d + n)) dst)
          else Inl OutOfBounds)"

text \<open>The row loop of \<^verbatim>\<open>copyToParent\<close>: \<^verbatim>\<open>for (int y = 0; y < height; y++)\<close>.\<close>

function copyRows :: "uiobj \<Rightarrow> int \<Rightarrow> int \<Rightarrow> int \<Rightarrow> int \<Rightarrow> byte list \<Rightarrow> fault + byte list" where
  "copyRows this bufferWidth height width y dst =
     (if y < height then
        (case memcpy dst ((y + obj_y this) * bufferWidth + obj_x this)
                (frameBuffer (surface this)) (y * obj_width this) width of
           Inl e \<Rightarrow> Inl e
         | Inr dst' \<Rightarrow> copyRows this bufferWidth height width (y + 1) dst')
      else Inr dst)"
  by pat_completeness auto
termination
  by (relation "measure (\<lambda>(this, bufferWidth, height, width, y, dst). nat (height - y))") auto

declare copyRows.simps [simp del]

text \<open>
  \<^verbatim>\<open>copyToParent\<close> takes the address of the parent's sprite first, so a null parent is
  a fault; a parent whose frame buffer is null makes it return at once.
\<close>

definition copyToParent :: "heap \<Rightarrow> ref \<Rightarrow> fault + heap" where
  "copyToParent h this =
     (case parent (h this) of
        None \<Rightarrow> Inl NullDeref
      | Some p \<Rightarrow>
          let buffer = surface (h p) in
          (case frameBuffer buffer of
             None \<Rightarrow> Inr h
           | Some dst \<Rightarrow>
               let height = min (obj_height (h this)) (sprite_height buffer - obj_y (h this));
                   width = min (obj_width (h this)) (sprite_width buffer - obj_x (h this))
               in (case copyRows (h this) (sprite_width buffer) height width 0 dst of
                     Inl e \<Rightarrow> Inl e
                   | Inr dst' \<Rightarrow>
                       Inr (h(p := (h p)\<lparr>surface := buffer\<lparr>frameBuffer := Some dst'\<rparr>\<rparr>)))))"

text \<open>
  The byte \<^verbatim>\<open>packToGrey\<close> stores for two pixels:
  \<^verbatim>\<open>((ownBuf[i] & 0x0F) << 4) | (ownBuf[i + 1] & 0x0F)\<close>, computed on \<^verbatim>\<open>int\<close> after
  promotion and cut to a byte by the store.
\<close>

definition packPixels :: "byte \<Rightarrow> byte \<Rightarrow> byte" where
  "packPixels p q =
     ucast (push_bit 4 ((ucast p :: 32 word) AND 0x0F) OR ((ucast q :: 32 word) AND 0x0F))"

text \<open>
  The inner loop, \<^verbatim>\<open>for (int x = 0; x < renderArea.width; x += 2)\<close>: it reads two
  pixels at \<^verbatim>\<open>ownBufOffset\<close>, stores one byte at \<^verbatim>\<open>outBufOffset\<close> and advances both.
\<close>

function packRow :: "byte list \<Rightarrow> int \<Rightarrow> int \<Rightarrow> int \<Rightarrow> int \<Rightarrow> byte list \<Rightarrow> fault + byte list" where
  "packRow ownBuf w x ownBufOffset outBufOffset outBuf =
     (if x < w then
        (if 0 \<le> ownBufOffset \<and> ownBufOffset + 1 < int (length ownBuf)
            \<and> 0 \<le> outBufOffset \<and> outBufOffset < int (length outBuf)
         then packRow ownBuf w (x + 2) (ownBufOffset + 2) (outBufOffset + 1)
                (outBuf[nat outBufOffset :=
                   packPixels (ownBuf ! nat ownBufOffset) (ownBuf ! nat (ownBufOffset + 1))])
         else Inl OutOfBounds)
      else Inr outBuf)"
  by pat_completeness auto
termination
  by (relation "measure (\<lambda>(ownBuf, w, x, ownBufOffset, outBufOffset, outBuf). nat (w - x))") auto

declare packRow.simps [simp del]

text \<open>Division of \<^verbatim>\<open>int\<close> in C++ truncates towards zero.\<close>

definition int_div :: "int \<Rightarrow> int \<Rightarrow> int" where
  "int_div a b = sgn a * sgn b * (\<bar>a\<bar> div \<bar>b\<bar>)"

text \<open>The outer loop, \<^verbatim>\<open>for (int y = 0; y < renderArea.height; y++)\<close>.\<close>

function packRows :: "uiobj \<Rightarrow> area \<Rightarrow> area \<Rightarrow> byte list \<Rightarrow> int \<Rightarrow> byte list \<Rightarrow> fault + byte list" where
  "packRows this topRange renderArea ownBuf y outBuf =
     (if y < area_height renderArea then
        (case packRow ownBuf (area_width renderArea) 0
                ((y + area_y renderArea) * obj_width this + area_x renderArea)
                (int_div (((y + obj_y this - area_y topRange) * area_width topRange)
                            + obj_x this - area_x topRange) 2)
                outBuf of
           Inl e \<Rightarrow> Inl e
         | Inr outBuf' \<Rightarrow> packRows this topRange renderArea ownBuf (y + 1) outBuf')
      else Inr outBuf)"
  by pat_completeness auto
termination
  by (relation "measure (\<lambda>(this, topRange, renderArea, ownBuf, y, outBuf).
                  nat (area_height renderArea - y))") auto

declare packRows.simps [simp del]

text \<open>
  \<^verbatim>\<open>packToGrey(renderArea)\<close>. The global \<^verbatim>\<open>screenBuffer\<close> is an argument and the
  result. The absolute position and the top-level object are computed before the null
  check, as in the source, so a cyclic parent chain keeps the call from returning.
\<close>

definition packToGrey :: "heap \<Rightarrow> byte list option \<Rightarrow> ref \<Rightarrow> area \<Rightarrow> (fault + byte list option) option" where
  "packToGrey h screenBuffer this renderArea =
     Option.bind (getAbsolutePos h this) (\<lambda>absoluteRange.
     Option.bind (topLevel h this) (\<lambda>top.
       let topRange = updateArea (h top) in
       (case frameBuffer (surface (h this)) of
          None \<Rightarrow> Some (Inr screenBuffer)
        | Some ownBuf \<Rightarrow>
            (case screenBuffer of
               None \<Rightarrow> Some (Inr screenBuffer)
             | Some outBuf \<Rightarrow>
                 (case packRows (h this) topRange renderArea ownBuf 0 outBuf of
                    Inl e \<Rightarrow> Some (Inl e)
                  | Inr outBuf' \<Rightarrow> Some (Inr (Some outBuf')))))))"

text \<open>
  How the display reads the packed buffer, two pixels per byte, the first in the high
  nibble. The source has no unpacking; this definition follows the specification's
  words, to state the round trip against.
\<close>

definition unpackByte :: "byte \<Rightarrow> byte list" where
  "unpackByte b = [drop_bit 4 b, b AND 0x0F]"

definition unpackBytes :: "byte list \<Rightarrow> byte list" where
  "unpackBytes bs = concat (map unpackByte bs)"

text \<open>What the row loop stores for a whole row of pixels, pair by pair.\<close>

fun packPairs :: "byte list \<Rightarrow> byte list" where
  "packPairs (p # q # rest) = packPixels p q # packPairs rest"
| "packPairs rest = []"

section \<open>Construction of objects\<close>

text \<open>
  The memory of an object of class \<open>k\<close> before its constructor has written to it, here
  all zero. The constructors below overwrite part of it; a field no constructor writes
  (\<^verbatim>\<open>itemsChanged\<close>, the \<^verbatim>\<open>callback\<close> of a button built from a
  \<^verbatim>\<open>std::function\<close>) keeps whatever the memory held.
\<close>

definition zero_area :: area where
  "zero_area = \<lparr>area_x = 0, area_y = 0, area_width = 0, area_height = 0\<rparr>"

text \<open>\<^verbatim>\<open>TFT_eSprite(NULL)\<close>: a sprite that has not been created.\<close>

definition TFT_eSprite :: sprite where
  "TFT_eSprite = \<lparr>sprite_width = 0, sprite_height = 0, frameBuffer = None\<rparr>"

definition raw :: "kind \<Rightarrow> uiobj" where
  "raw k =
     \<lparr>kind = k, obj_x = 0, obj_y = 0, obj_width = 0, obj_height = 0, parent = None,
      surface = TFT_eSprite, updated = False, exposed = False, hardwareDraw = False,
      unbuffered = False, visible = False, initialised = False, visibilityChanged = False,
      newParent = False, drawn = False, layer = LAYER_BG, updateArea = zero_area,
      exposeArea = zero_area, label_text = [], label_initialised = False,
      hasOutline = False, outlineThickness = 0, customFont = False, textSize = 0,
      autosize = False, resizeNeeded = False, xPad = 0, yPad = 0, hasPreRender = False,
      objects = [], frame_initialised = False, hwFrame = False, itemsChanged = False,
      callback = None, stdCallback = None, useStdFunction = False, result = 0,
      modal = None\<rparr>"

text \<open>
  \<^verbatim>\<open>createSprite(w, h, 1)\<close> and \<^verbatim>\<open>deleteSprite()\<close> of the display library, as the
  program uses them: a sprite that exists is left as it is, a size below 1 creates
  nothing, and otherwise the sprite gets the size and a zeroed buffer of one byte per
  pixel (the allocation is taken to succeed).
\<close>

definition createSprite :: "int \<Rightarrow> int \<Rightarrow> sprite \<Rightarrow> sprite" where
  "createSprite w h s =
     (if frameBuffer s \<noteq> None \<or> w < 1 \<or> h < 1 then s
      else \<lparr>sprite_width = w, sprite_height = h,
            frameBuffer = Some (replicate (nat (w * h)) 0)\<rparr>)"

definition deleteSprite :: "sprite \<Rightarrow> sprite" where
  "deleteSprite s = s\<lparr>frameBuffer := None\<rparr>"

definition initDefaults :: "uiobj \<Rightarrow> uiobj" where
  "initDefaults this =
     this\<lparr>visible := True, layer := LAYER_CENTRE, updated := True, initialised := True,
          visibilityChanged := False, parent := None, newParent := False, drawn := False,
          exposed := False, updateArea := zero_area\<rparr>"

text \<open>The constructor \<^verbatim>\<open>UiObj()\<close>.\<close>

definition UiObj :: "uiobj \<Rightarrow> uiobj" where
  "UiObj this =
     initDefaults (this\<lparr>obj_x := 0, obj_y := 0, obj_width := 0, obj_height := 0,
                        surface := TFT_eSprite, hardwareDraw := False, unbuffered := True\<rparr>)"

text \<open>
  \<^verbatim>\<open>UiObj::init(x, y, width, height, unbuffered)\<close>. The last assignment reads the
  parameter \<^verbatim>\<open>unbuffered\<close>, not the field.
\<close>

definition UiObj_init :: "int \<Rightarrow> int \<Rightarrow> int \<Rightarrow> int \<Rightarrow> bool \<Rightarrow> uiobj \<Rightarrow> uiobj" where
  "UiObj_init x y width height unbuffered_arg this =
     (let this1 = this\<lparr>obj_x := x, obj_y := y, obj_width := width, obj_height := height,
                        surface := TFT_eSprite\<rparr>;
          this2 = (if \<not> unbuffered_arg \<and> width > 0 \<and> height > 0
                   then this1\<lparr>surface := createSprite width height (surface this1),
                              unbuffered := False\<rparr>
                   else this1\<lparr>unbuffered := True\<rparr>)
      in initDefaults (this2\<lparr>hardwareDraw := unbuffered_arg\<rparr>))"

definition createBuffer :: "int \<Rightarrow> int \<Rightarrow> uiobj \<Rightarrow> uiobj" where
  "createBuffer width height this =
     (if unbuffered this
      then this\<lparr>obj_width := width, obj_height := height,
                surface := createSprite width height (surface this),
                unbuffered := False, hardwareDraw := False\<rparr>
      else this)"

section \<open>\<^verbatim>\<open>UiLabel\<close>: construction, autosizing and line breaking\<close>

text \<open>\<^verbatim>\<open>UiLabel::setOutline(colour, thickness, roundingRadius)\<close>, without the colour.\<close>

definition setOutline :: "16 word \<Rightarrow> 16 word \<Rightarrow> uiobj \<Rightarrow> uiobj" where
  "setOutline colour thickness this =
     (if thickness > 0
      then this\<lparr>hasOutline := True, outlineThickness := thickness\<rparr>
      else this\<lparr>hasOutline := False\<rparr>)
     \<lparr>resizeNeeded := True, updated := True\<rparr>"

text \<open>\<^verbatim>\<open>UiLabel::init(x, y, width, height, text, unbuffered)\<close>.\<close>

definition UiLabel_init :: "int \<Rightarrow> int \<Rightarrow> int \<Rightarrow> int \<Rightarrow> string \<Rightarrow> bool \<Rightarrow> uiobj \<Rightarrow> uiobj" where
  "UiLabel_init x y width height str unbuffered_arg this =
     (let this1 = (UiObj_init x y width height unbuffered_arg this)
                    \<lparr>label_text := str, hasOutline := False, textSize := 3,
                     customFont := False, label_initialised := True, autosize := False,
                     resizeNeeded := False, xPad := 10, yPad := 10\<rparr>;
          this2 = setOutline 1 10 this1
      in this2\<lparr>hasPreRender := False, updated := True\<rparr>)"

text \<open>\<^verbatim>\<open>UiLabel::resize(width, height)\<close>.\<close>

definition resize :: "int \<Rightarrow> int \<Rightarrow> uiobj \<Rightarrow> uiobj" where
  "resize width height this =
     this\<lparr>obj_width := width, obj_height := height,
          surface := createSprite width height (deleteSprite (surface this)),
          updated := True\<rparr>"

text \<open>
  \<^verbatim>\<open>UiLabel::autoResize(init)\<close>. The text metrics belong to the display library:
  \<open>textWidth\<close> and \<open>fontHeight\<close> are what \<^verbatim>\<open>surface.textWidth\<close> and
  \<^verbatim>\<open>surface.fontHeight(1)\<close> report for the font the method has just selected. The
  \<^verbatim>\<open>uint16_t\<close> paddings are promoted to \<^verbatim>\<open>int\<close> before the arithmetic.
\<close>

definition autoResize :: "(string \<Rightarrow> int) \<Rightarrow> int \<Rightarrow> bool \<Rightarrow> uiobj \<Rightarrow> uiobj" where
  "autoResize textWidth fontHeight init this =
     (let this1 = this\<lparr>autosize := True, resizeNeeded := False\<rparr>;
          width = textWidth (label_text this1) + uint (xPad this1) * 2
                    + uint (outlineThickness this1) * 2;
          this2 = this1\<lparr>obj_width := width\<rparr>;
          height = fontHeight + uint (yPad this2) * 2 + uint (outlineThickness this2) * 2;
          this3 = this2\<lparr>obj_height := height\<rparr>;
          this4 = (if init then createBuffer width height this3 else resize width height this3)
      in this4\<lparr>updated := True\<rparr>)"

text \<open>
  The constructor \<^verbatim>\<open>UiLabel(x, y, text)\<close>: \<^verbatim>\<open>UiObj()\<close>, then
  \<^verbatim>\<open>init(x, y, text)\<close>, which initialises a label of size 0 and resizes it to its
  text.
\<close>

definition UiLabel_autosized :: "(string \<Rightarrow> int) \<Rightarrow> int \<Rightarrow> int \<Rightarrow> int \<Rightarrow> string \<Rightarrow> uiobj \<Rightarrow> uiobj" where
  "UiLabel_autosized textWidth fontHeight x y str this =
     (let this1 = UiObj this;
          this2 = UiObj_init x y 0 0 False this1;
          this3 = this2\<lparr>surface := TFT_eSprite\<rparr>;
          this4 = UiLabel_init x y 0 0 str False this3;
          this5 = this4\<lparr>autosize := True\<rparr>
      in autoResize textWidth fontHeight True this5)"

subsection \<open>The Arduino \<^verbatim>\<open>String\<close> methods the label uses\<close>

text \<open>
  \<^verbatim>\<open>indexOf\<close> gives the first position of a character or -1; \<^verbatim>\<open>charAt\<close> gives
  the character 0 outside the string; \<^verbatim>\<open>substring(left, right)\<close> takes
  \<^verbatim>\<open>unsigned int\<close> arguments, swaps them when \<^verbatim>\<open>left > right\<close> and cuts the
  range to the string.
\<close>

fun indexOf :: "string \<Rightarrow> char \<Rightarrow> int" where
  "indexOf [] c = -1"
| "indexOf (d # s) c =
     (if d = c then 0 else (let i = indexOf s c in if i = -1 then -1 else i + 1))"

definition charAt :: "string \<Rightarrow> int \<Rightarrow> char" where
  "charAt s i = (if 0 \<le> i \<and> i < int (length s) then s ! nat i else CHR 0x00)"

definition substring :: "string \<Rightarrow> int \<Rightarrow> int \<Rightarrow> string" where
  "substring s left right =
     (let l = nat (left mod 2 ^ 32); r = nat (right mod 2 ^ 32);
          lo = min l r; hi = max l r
      in if lo \<ge> length s then [] else take (min hi (length s) - lo) (drop lo s))"

text \<open>
  The inner loop of \<^verbatim>\<open>lineLimit\<close>:
  \<^verbatim>\<open>do { lineEnd--; } while (text.charAt(lineEnd) != ' ' && lineEnd > lineStart);\<close>
\<close>

function walkBack :: "string \<Rightarrow> int \<Rightarrow> int \<Rightarrow> int" where
  "walkBack str lineStart lineEnd =
     (let lineEnd' = lineEnd - 1
      in if charAt str lineEnd' \<noteq> CHR '' '' \<and> lineEnd' > lineStart
         then walkBack str lineStart lineEnd'
         else lineEnd')"
  by pat_completeness auto
termination
  by (relation "measure (\<lambda>(str, lineStart, lineEnd). nat (lineEnd - lineStart))") auto

declare walkBack.simps [simp del]

lemma walkBack_less: "walkBack str lineStart lineEnd < lineEnd"
proof (induction str lineStart lineEnd rule: walkBack.induct)
  case (1 str lineStart lineEnd)
  show ?case
  proof (cases "charAt str (lineEnd - 1) \<noteq> CHR '' '' \<and> lineEnd - 1 > lineStart")
    case True
    then have "walkBack str lineStart lineEnd = walkBack str lineStart (lineEnd - 1)"
      by (subst walkBack.simps) (simp add: Let_def)
    moreover have "walkBack str lineStart (lineEnd - 1) < lineEnd - 1"
      using "1.IH" True by simp
    ultimately show ?thesis by simp
  next
    case False
    then have "walkBack str lineStart lineEnd = lineEnd - 1"
      by (subst walkBack.simps) (auto simp: Let_def)
    then show ?thesis by simp
  qed
qed

text \<open>
  The outer loop of \<^verbatim>\<open>lineLimit\<close>, \<^verbatim>\<open>while (true)\<close> with its \<^verbatim>\<open>break\<close>: the line
  is accepted when it fits or when at most one character is left.
\<close>

function shrinkLine :: "(string \<Rightarrow> int) \<Rightarrow> int \<Rightarrow> string \<Rightarrow> int \<Rightarrow> int \<Rightarrow> int" where
  "shrinkLine textWidth textAreaWidth str lineStart lineEnd =
     (let lineWidth = textWidth (substring str lineStart lineEnd)
      in if lineWidth \<le> textAreaWidth \<or> lineEnd - lineStart \<le> 1
         then lineEnd
         else shrinkLine textWidth textAreaWidth str lineStart (walkBack str lineStart lineEnd))"
  by pat_completeness auto
termination
proof (relation "measure (\<lambda>(textWidth, textAreaWidth, str, lineStart, lineEnd).
                   nat (lineEnd - lineStart))")
  fix textWidth :: "string \<Rightarrow> int" and textAreaWidth :: int and str :: string
    and lineStart lineEnd x :: int
  assume "\<not> (x \<le> textAreaWidth \<or> lineEnd - lineStart \<le> 1)"
  then have "1 < lineEnd - lineStart" by simp
  moreover have "walkBack str lineStart lineEnd < lineEnd" by (rule walkBack_less)
  ultimately show "((textWidth, textAreaWidth, str, lineStart, walkBack str lineStart lineEnd),
                    (textWidth, textAreaWidth, str, lineStart, lineEnd))
      \<in> measure (\<lambda>(textWidth, textAreaWidth, str, lineStart, lineEnd). nat (lineEnd - lineStart))"
    by simp
qed simp

declare shrinkLine.simps [simp del]

text \<open>\<^verbatim>\<open>UiLabel::lineLimit(text, offset)\<close>.\<close>

definition lineLimit :: "(string \<Rightarrow> int) \<Rightarrow> uiobj \<Rightarrow> string \<Rightarrow> int \<Rightarrow> int" where
  "lineLimit textWidth this str offset =
     (let lineStart = offset;
          lineEnd = indexOf str (CHR 0x0A);
          textAreaWidth = obj_width this - uint (xPad this) * 2
                            - uint (outlineThickness this) * 2;
          lineEnd = (if lineEnd = -1 then int (length str) else lineEnd)
      in shrinkLine textWidth textAreaWidth str lineStart lineEnd)"

text \<open>
  The loop of \<^verbatim>\<open>UiLabel::drawMultilineText\<close>, with the lines it draws as its result:
  \<^verbatim>\<open>while (lineEnd < text.length()) { lineEnd = lineLimit(text, lineStart); ...
  drawString(text.substring(lineStart, lineEnd), ...); ... lineStart = lineEnd; }\<close>.
  The length is an \<^verbatim>\<open>unsigned int\<close>, so the comparison converts \<^verbatim>\<open>lineEnd\<close> to
  unsigned. The loop need not end; then the value is \<open>None\<close>.
\<close>

partial_function (option) drawLines ::
    "(string \<Rightarrow> int) \<Rightarrow> uiobj \<Rightarrow> int \<Rightarrow> int \<Rightarrow> string list \<Rightarrow> string list option" where
  "drawLines textWidth this lineStart lineEnd drawnLines =
     (if lineEnd mod 2 ^ 32 < int (length (label_text this))
      then (let lineEnd' = lineLimit textWidth this (label_text this) lineStart
            in drawLines textWidth this lineEnd' lineEnd'
                 (drawnLines @ [substring (label_text this) lineStart lineEnd']))
      else Some drawnLines)"

definition drawMultilineText :: "(string \<Rightarrow> int) \<Rightarrow> uiobj \<Rightarrow> string list option" where
  "drawMultilineText textWidth this = drawLines textWidth this 0 0 []"

text \<open>
  \<^verbatim>\<open>UiLabel::drawText\<close>, with the lines it draws as its result: nothing for an empty
  text, several lines when the text is wider than the label without its horizontal
  padding, the text as one line otherwise.
\<close>

definition drawText :: "(string \<Rightarrow> int) \<Rightarrow> uiobj \<Rightarrow> string list option" where
  "drawText textWidth this =
     (if label_text this = [] then Some []
      else if textWidth (label_text this) > obj_width this - uint (xPad this) * 2
      then drawMultilineText textWidth this
      else Some [label_text this])"

section \<open>\<^verbatim>\<open>UiFrame\<close>: what changed and the update area\<close>

text \<open>The classes derived from \<^verbatim>\<open>UiFrame\<close>, which inherit its overrides.\<close>

definition isFrame :: "kind \<Rightarrow> bool" where
  "isFrame k = (k = UiFrame \<or> k = UiIcon \<or> k = UiModal \<or> k = UiManager)"

text \<open>
  \<^verbatim>\<open>isUpdated\<close> is virtual, and the override of a frame asks its children through
  \<^verbatim>\<open>isObjectChanged\<close>, so the call recurses through the frames below it. The first
  argument bounds the depth of these calls; \<open>None\<close> means the bound was too small.
  \<^verbatim>\<open>isObjectChanged\<close> evaluates
  \<^verbatim>\<open>obj->initialised && ((obj->isUpdated() && obj->visible) || obj->visibilityChanged || obj->newParent)\<close>
  from left to right, on the field \<^verbatim>\<open>initialised\<close> of \<^verbatim>\<open>UiObj\<close>.
\<close>

fun isUpdated :: "nat \<Rightarrow> heap \<Rightarrow> ref \<Rightarrow> bool option"
  and isObjectChanged :: "nat \<Rightarrow> heap \<Rightarrow> ref \<Rightarrow> bool option"
  and anyObjectChanged :: "nat \<Rightarrow> heap \<Rightarrow> ref list \<Rightarrow> bool option"
where
  "isUpdated 0 h this = None"
| "isUpdated (Suc n) h this =
     (if isFrame (kind (h this)) then
        (if \<not> frame_initialised (h this) then Some False
         else if itemsChanged (h this) \<or> visibilityChanged (h this) \<or> newParent (h this)
         then Some True
         else anyObjectChanged n h (objects (h this)))
      else if kind (h this) = UiHwImage then Some False
      else Some (updated (h this)))"
| "isObjectChanged n h obj =
     (if initialised (h obj) then
        (case isUpdated n h obj of
           None \<Rightarrow> None
         | Some u \<Rightarrow> Some ((u \<and> visible (h obj)) \<or> visibilityChanged (h obj) \<or> newParent (h obj)))
      else Some False)"
| "anyObjectChanged n h [] = Some False"
| "anyObjectChanged n h (obj # rest) =
     (case isObjectChanged n h obj of
        None \<Rightarrow> None
      | Some True \<Rightarrow> Some True
      | Some False \<Rightarrow> anyObjectChanged n h rest)"

declare isObjectChanged.simps [simp del]

definition overlaps :: "uiobj \<Rightarrow> uiobj \<Rightarrow> bool" where
  "overlaps obj1 obj2 =
     (\<not> (obj_x obj1 + obj_width obj1 < obj_x obj2 \<or> obj_x obj1 > obj_x obj2 + obj_width obj2
         \<or> obj_y obj1 + obj_height obj1 < obj_y obj2 \<or> obj_y obj1 > obj_y obj2 + obj_height obj2))"

text \<open>\<^verbatim>\<open>updateBelow(obj)\<close>: the loop over the children of the frame.\<close>

fun updateBelow :: "heap \<Rightarrow> ref \<Rightarrow> ref list \<Rightarrow> heap" where
  "updateBelow h obj [] = h"
| "updateBelow h obj (child # rest) =
     updateBelow (if overlaps (h obj) (h child)
                  then h(child := (h child)\<lparr>visibilityChanged := True\<rparr>)
                  else h) obj rest"

text \<open>
  The first loop of \<^verbatim>\<open>UiFrame::getUpdateArea\<close>: every child that has just been hidden
  marks what it overlaps.
\<close>

fun markBelowHidden :: "heap \<Rightarrow> ref \<Rightarrow> ref list \<Rightarrow> heap" where
  "markBelowHidden h this [] = h"
| "markBelowHidden h this (obj # rest) =
     markBelowHidden
       (if initialised (h obj) \<and> visibilityChanged (h obj) \<and> \<not> visible (h obj)
        then updateBelow h obj (objects (h this))
        else h) this rest"

text \<open>
  The second loop: the bounding box of the changed children, kept in
  \<^verbatim>\<open>this->updateArea\<close>, where x = -1 and y = -1 stand for "not set yet".
\<close>

definition extendArea :: "area \<Rightarrow> uiobj \<Rightarrow> area" where
  "extendArea ua obj =
     (let x = (if area_x ua = -1 then obj_x obj else min (area_x ua) (obj_x obj));
          y = (if area_y ua = -1 then obj_y obj else min (area_y ua) (obj_y obj))
      in \<lparr>area_x = x, area_y = y,
          area_width = max (area_width ua) (obj_width obj + obj_x obj - x),
          area_height = max (area_height ua) (obj_height obj + obj_y obj - y)\<rparr>)"

fun accumulateArea :: "nat \<Rightarrow> heap \<Rightarrow> ref \<Rightarrow> ref list \<Rightarrow> heap option" where
  "accumulateArea n h this [] = Some h"
| "accumulateArea n h this (obj # rest) =
     (case isObjectChanged n h obj of
        None \<Rightarrow> None
      | Some True \<Rightarrow>
          accumulateArea n
            (h(this := (h this)\<lparr>updateArea := extendArea (updateArea (h this)) (h obj)\<rparr>))
            this rest
      | Some False \<Rightarrow> accumulateArea n h this rest)"

text \<open>\<^verbatim>\<open>if (updateArea.x < 0 || updateArea.y < 0) { updateArea.x = 0; updateArea.y = 0; }\<close>\<close>

definition clampOrigin :: "area \<Rightarrow> area" where
  "clampOrigin ua =
     (if area_x ua < 0 \<or> area_y ua < 0 then ua\<lparr>area_x := 0, area_y := 0\<rparr> else ua)"

text \<open>
  \<^verbatim>\<open>if (hwFrame) updateArea.width = ((updateArea.width + 3) >> 2) << 2;\<close>
\<close>

definition alignWidth :: "bool \<Rightarrow> area \<Rightarrow> area" where
  "alignWidth hw ua =
     (if hw then ua\<lparr>area_width := push_bit 2 (drop_bit 2 (area_width ua + 3))\<rparr> else ua)"

text \<open>
  The part of \<^verbatim>\<open>UiFrame::getUpdateArea\<close> that accumulates: the second loop and the
  clamping of a negative origin, up to the rounding of the width.
\<close>

definition accumulated :: "nat \<Rightarrow> heap \<Rightarrow> ref \<Rightarrow> heap option" where
  "accumulated n h this =
     Option.bind (accumulateArea n h this (objects (h this))) (\<lambda>h'.
       Some (h'(this := (h' this)\<lparr>updateArea := clampOrigin (updateArea (h' this))\<rparr>)))"

text \<open>
  The start of the accumulating path of \<^verbatim>\<open>UiFrame::getUpdateArea\<close>: the update area
  is reset to the "not set" value and the first loop runs.
\<close>

definition resetAndMark :: "heap \<Rightarrow> ref \<Rightarrow> heap" where
  "resetAndMark h this =
     (let h1 = h(this := (h this)\<lparr>updateArea :=
                 \<lparr>area_x = -1, area_y = -1, area_width = 0, area_height = 0\<rparr>\<rparr>)
      in markBelowHidden h1 this (objects (h1 this)))"

text \<open>
  \<^verbatim>\<open>UiFrame::getUpdateArea()\<close>: the area it returns and the heap it leaves. An
  uninitialised frame returns an empty area and writes nothing; a frame whose own
  visibility has changed returns its whole area before the second loop and the rounding.
\<close>

definition UiFrame_getUpdateArea :: "nat \<Rightarrow> heap \<Rightarrow> ref \<Rightarrow> (area \<times> heap) option" where
  "UiFrame_getUpdateArea n h this =
     (if \<not> frame_initialised (h this) then Some (zero_area, h)
      else case isUpdated n h this of
        None \<Rightarrow> None
      | Some False \<Rightarrow> Some (zero_area, h(this := (h this)\<lparr>updateArea := zero_area\<rparr>))
      | Some True \<Rightarrow>
          (let h2 = resetAndMark h this
           in if visibilityChanged (h2 this)
              then (let full = \<lparr>area_x = 0, area_y = 0, area_width = obj_width (h2 this),
                                area_height = obj_height (h2 this)\<rparr>
                    in Some (full, h2(this := (h2 this)\<lparr>updateArea := full\<rparr>)))
              else Option.bind (accumulated n h2 this) (\<lambda>h3.
                     let ua = alignWidth (hwFrame (h3 this)) (updateArea (h3 this))
                     in Some (ua, h3(this := (h3 this)\<lparr>updateArea := ua\<rparr>)))))"

section \<open>Exposure and hiding\<close>

text \<open>\<^verbatim>\<open>UiObj::expose(xArea)\<close>: the object records the exposure on itself.\<close>

definition UiObj_expose :: "heap \<Rightarrow> ref \<Rightarrow> area \<Rightarrow> heap" where
  "UiObj_expose h this xArea = h(this := (h this)\<lparr>exposed := True, exposeArea := xArea\<rparr>)"

definition withinArea :: "area \<Rightarrow> uiobj \<Rightarrow> bool" where
  "withinArea checkArea obj =
     (obj_x obj \<ge> area_x checkArea
      \<and> obj_x obj + obj_width obj \<le> area_x checkArea + area_width checkArea
      \<and> obj_y obj \<ge> area_y checkArea
      \<and> obj_y obj + obj_height obj \<le> area_y checkArea + area_height checkArea)"

definition childOffset :: "uiobj \<Rightarrow> area \<Rightarrow> area" where
  "childOffset this a =
     (if parent this = None then a
      else \<lparr>area_x = area_x a - obj_x this, area_y = area_y a - obj_y this,
            area_width = area_width a, area_height = area_height a\<rparr>)"

text \<open>
  The virtual \<^verbatim>\<open>expose\<close>. The override \<^verbatim>\<open>UiFrame::expose\<close> hands the area to its
  visible children inside it when the frame draws to the hardware or has no parent, and
  calls \<^verbatim>\<open>UiObj::expose\<close> on itself otherwise. The children's \<^verbatim>\<open>expose\<close> is
  virtual again, so the first argument bounds the depth, as for \<open>isUpdated\<close>.
\<close>

fun expose :: "nat \<Rightarrow> heap \<Rightarrow> ref \<Rightarrow> area \<Rightarrow> heap option"
  and exposeObjects :: "nat \<Rightarrow> heap \<Rightarrow> ref list \<Rightarrow> area \<Rightarrow> heap option"
where
  "expose 0 h this xArea = None"
| "expose (Suc n) h this xArea =
     (if isFrame (kind (h this)) then
        (if hwFrame (h this) \<or> parent (h this) = None
         then exposeObjects n h (objects (h this)) xArea
         else Some (UiObj_expose h this xArea))
      else Some (UiObj_expose h this xArea))"
| "exposeObjects n h [] xArea = Some h"
| "exposeObjects n h (obj # rest) xArea =
     (if visible (h obj) \<and> withinArea xArea (h obj)
      then (case expose n h obj (childOffset (h obj) xArea) of
              None \<Rightarrow> None
            | Some h' \<Rightarrow> exposeObjects n h' rest xArea)
      else exposeObjects n h rest xArea)"

text \<open>\<^verbatim>\<open>UiObj::hide()\<close>.\<close>

definition hide :: "nat \<Rightarrow> heap \<Rightarrow> ref \<Rightarrow> heap option" where
  "hide n h this =
     (if visible (h this) then
        (let h1 = h(this := (h this)\<lparr>visible := False, visibilityChanged := True\<rparr>)
         in Option.bind (topLevel h1 this) (\<lambda>top. expose n h1 top (getArea (h1 this))))
      else Some h)"

section \<open>Touch events\<close>















section \<open>Concrete scenes\<close>

text \<open>
  An image of one row of eight pixels with the values of the specification's example,
  alone in the heap.
\<close>

definition pixelRow :: uiobj where
  "pixelRow = (raw UiImage)\<lparr>obj_width := 8, obj_height := 1,
      surface := \<lparr>sprite_width = 8, sprite_height = 1,
                  frameBuffer = Some [0, 15, 3, 12, 7, 8, 1, 14]\<rparr>,
      updateArea := \<lparr>area_x = 0, area_y = 0, area_width = 8, area_height = 1\<rparr>\<rparr>"

text \<open>
  A label at address 1 inside a frame at address 0 that has no buffer (it draws to the
  hardware); the label has a buffer of 2 by 2 pixels.
\<close>

definition unbufferedParent :: heap where
  "unbufferedParent =
     (\<lambda>_. raw UiLabel)
       (0 := (raw UiFrame)\<lparr>obj_width := 4, obj_height := 4, objects := [1]\<rparr>,
        1 := (raw UiLabel)\<lparr>obj_width := 2, obj_height := 2, parent := Some 0,
               surface := \<lparr>sprite_width = 2, sprite_height = 2,
                           frameBuffer = Some [1, 2, 3, 4]\<rparr>\<rparr>)"

text \<open>
  A screen as \<^verbatim>\<open>setup()\<close> and the constructors build it, while the modal is shown:
  the manager at address 0 draws to the hardware and holds the modal dialog (2), a label
  (4), a buffered frame (5) and a hidden label (7); the dialog holds its OK button (3),
  whose \<^verbatim>\<open>std::function\<close> is bound to \<^verbatim>\<open>okPressed\<close> of the dialog; the frame
  holds a label (6).
\<close>

definition manager :: uiobj where
  "manager = (raw UiManager)\<lparr>obj_width := 540, obj_height := 960, hardwareDraw := True,
      unbuffered := True, visible := True, initialised := True, label_initialised := True,
      objects := [2, 4, 5, 7], frame_initialised := True, hwFrame := True,
      modal := Some 2\<rparr>"

definition dialog :: uiobj where
  "dialog = (raw UiModal)\<lparr>obj_x := 50, obj_y := 200, obj_width := 400, obj_height := 300,
      parent := Some 0, visible := True, initialised := True, layer := LAYER_OVERLAY,
      label_initialised := True, objects := [3], frame_initialised := True,
      result := -1\<rparr>"

definition okButton :: uiobj where
  "okButton = (raw UiButton)\<lparr>obj_x := 100, obj_y := 200, obj_width := 80, obj_height := 54,
      parent := Some 2, visible := True, initialised := True, layer := LAYER_CENTRE,
      label_text := ''OK'', label_initialised := True, callback := Some 9,
      stdCallback := Some (OkPressed 2), useStdFunction := True\<rparr>"

definition quote :: uiobj where
  "quote = (raw UiLabel)\<lparr>obj_x := 60, obj_y := 150, obj_width := 410, obj_height := 40,
      parent := Some 0, visible := True, initialised := True, layer := LAYER_LOWER,
      label_initialised := True\<rparr>"

definition panel :: uiobj where
  "panel = (raw UiFrame)\<lparr>obj_x := 120, obj_y := 400, obj_width := 350, obj_height := 300,
      parent := Some 0, visible := True, initialised := True, layer := LAYER_CENTRE,
      label_initialised := True, objects := [6], frame_initialised := True\<rparr>"

definition caption :: uiobj where
  "caption = (raw UiLabel)\<lparr>obj_x := 20, obj_y := 20, obj_width := 100, obj_height := 40,
      parent := Some 5, visible := True, initialised := True, layer := LAYER_CENTRE,
      label_initialised := True\<rparr>"

definition hiddenNote :: uiobj where
  "hiddenNote = (raw UiLabel)\<lparr>obj_x := 10, obj_y := 800, obj_width := 100, obj_height := 40,
      parent := Some 0, visible := False, initialised := True, layer := LAYER_CENTRE,
      label_initialised := True\<rparr>"

definition scene :: heap where
  "scene = (\<lambda>_. raw UiLabel)
     (0 := manager, 2 := dialog, 3 := okButton, 4 := quote, 5 := panel, 6 := caption,
      7 := hiddenNote)"




text \<open>
  The bound on the depth of virtual calls used with these scenes, the area of the whole
  screen, an application without callbacks, and a child that accepts every touch.
\<close>

definition depth :: nat where
  "depth = 4"

definition wholeScreen :: area where
  "wholeScreen = \<lparr>area_x = 0, area_y = 0, area_width = 540, area_height = 960\<rparr>"



text \<open>
  A buffered frame that has just received two labels through \<^verbatim>\<open>add\<close>: the first
  (2) at x = 100 and 50 wide, the second (3) at x = 0 and 10 wide.
\<close>

definition firstAdded :: uiobj where
  "firstAdded = (raw UiLabel)\<lparr>obj_x := 100, obj_width := 50, obj_height := 10,
      parent := Some 0, updated := True, visible := True, initialised := True,
      newParent := True, layer := LAYER_CENTRE, label_initialised := True\<rparr>"

definition secondAdded :: uiobj where
  "secondAdded = (raw UiLabel)\<lparr>obj_width := 10, obj_height := 10, parent := Some 0,
      updated := True, visible := True, initialised := True, newParent := True,
      layer := LAYER_CENTRE, label_initialised := True\<rparr>"

definition twoLabels :: heap where
  "twoLabels = (\<lambda>_. raw UiLabel)
     (0 := (raw UiFrame)\<lparr>obj_width := 200, obj_height := 100, updated := True,
              visible := True, initialised := True, layer := LAYER_CENTRE,
              label_initialised := True, objects := [2, 3], frame_initialised := True,
              itemsChanged := True\<rparr>,
      2 := firstAdded, 3 := secondAdded)"

text \<open>
  A frame that draws to the hardware, 10 pixels wide, that has just been shown
  (\<^verbatim>\<open>show()\<close> sets \<^verbatim>\<open>visibilityChanged\<close>), and the same frame holding the two
  labels with its visibility unchanged.
\<close>

definition shownFrame :: heap where
  "shownFrame = (\<lambda>_. raw UiLabel)
     (0 := (raw UiFrame)\<lparr>obj_width := 10, obj_height := 10, hardwareDraw := True,
              unbuffered := True, visible := True, initialised := True,
              visibilityChanged := True, label_initialised := True,
              frame_initialised := True, hwFrame := True\<rparr>)"

definition hwTwoLabels :: heap where
  "hwTwoLabels = twoLabels(0 := (twoLabels 0)\<lparr>hwFrame := True, hardwareDraw := True\<rparr>)"

text \<open>
  A text metric of 10 pixels for every character, a label 70 pixels wide with the text
  \<^verbatim>\<open>abcdef\<close>, and a label 60 pixels wide whose text has a line break after
  \<^verbatim>\<open>ab\<close>. With the default padding of 10 and outline of 10 the text areas are 30
  and 20 pixels wide, and both texts are wider than the label without its padding, so
  \<^verbatim>\<open>drawText\<close> draws them as several lines.
\<close>

definition monospace :: "string \<Rightarrow> int" where
  "monospace s = 10 * int (length s)"

definition narrowLabel :: uiobj where
  "narrowLabel = UiLabel_init 0 0 70 40 ''abcdef'' False (raw UiLabel)"

definition twoLineLabel :: uiobj where
  "twoLineLabel =
     UiLabel_init 0 0 60 80 [CHR ''a'', CHR ''b'', CHR 0x0A, CHR ''c'', CHR ''d''] False
       (raw UiLabel)"

section \<open>Notions used to state the properties\<close>

text \<open>
  Two heaps that differ at most in the fields \<^verbatim>\<open>exposed\<close> and \<^verbatim>\<open>exposeArea\<close> of
  their objects.
\<close>

definition exposureOnly :: "heap \<Rightarrow> heap \<Rightarrow> bool" where
  "exposureOnly h h' = (\<forall>q. \<exists>e a. h' q = (h q)\<lparr>exposed := e, exposeArea := a\<rparr>)"

text \<open>
  An object on which \<^verbatim>\<open>expose\<close> runs \<^verbatim>\<open>UiObj::expose\<close>: any object that is not a
  frame, and a frame that neither draws to the hardware nor lacks a parent.
\<close>

definition recordsExposure :: "uiobj \<Rightarrow> bool" where
  "recordsExposure obj = (\<not> isFrame (kind obj) \<or> (\<not> hwFrame obj \<and> parent obj \<noteq> None))"


text \<open>
  The frames in and below an object are nested less than \<open>n\<close> deep, so \<open>n\<close> nested
  virtual calls of \<^verbatim>\<open>isUpdated\<close> are enough.
\<close>

fun frameDepth :: "nat \<Rightarrow> heap \<Rightarrow> ref \<Rightarrow> bool" where
  "frameDepth 0 h this = False"
| "frameDepth (Suc n) h this =
     (if isFrame (kind (h this)) then list_all (frameDepth n h) (objects (h this))
      else True)"




text \<open>
  The heap after a frame has handed an area to its children, when each child records
  the exposure on itself.
\<close>

definition exposedChildren :: "heap \<Rightarrow> ref list \<Rightarrow> area \<Rightarrow> heap" where
  "exposedChildren h objs xArea =
     (\<lambda>q. if q \<in> set objs \<and> visible (h q) \<and> withinArea xArea (h q)
          then (h q)\<lparr>exposed := True, exposeArea := childOffset (h q) xArea\<rparr>
          else h q)"

section \<open>Properties of the pixel packing\<close>

lemma packPixels_alt: "packPixels p q = push_bit 4 (p AND 0x0F) OR (q AND 0x0F)"
  unfolding packPixels_def
  by (rule bit_word_eqI) (auto simp: bit_simps)

lemma mask4: "(0x0F :: byte) = mask 4"
  by (simp add: mask_eq_exp_minus_1)

lemma nibble_AND:
  assumes "(p::byte) \<le> 15" shows "p AND 0x0F = p"
proof -
  have "p < 2 ^ 4" using assms by (simp add: word_le_nat_alt word_less_nat_alt)
  then have "p AND mask 4 = p" by (rule less_mask_eq)
  then show ?thesis by (simp only: mask4)
qed

lemma high_nibble: "drop_bit 4 (packPixels p q) = p AND 0x0F"
  unfolding packPixels_alt mask4
  by (rule bit_word_eqI) (auto simp: bit_simps)

lemma low_nibble: "packPixels p q AND 0x0F = q AND 0x0F"
  unfolding packPixels_alt mask4
  by (rule bit_word_eqI) (auto simp: bit_simps)

lemma unpack_pack: "p \<le> 15 \<Longrightarrow> q \<le> 15 \<Longrightarrow> unpackByte (packPixels p q) = [p, q]"
  by (simp add: unpackByte_def high_nibble low_nibble nibble_AND)

lemma packRow_pairs:
  "length vs = 2 * n + 2 * m \<Longrightarrow> length out = n + m \<Longrightarrow>
   packRow vs (int (length vs)) (int (2 * n)) (int (2 * n)) (int n) out
     = Inr (take n out @ packPairs (drop (2 * n) vs))"
proof (induction m arbitrary: n out)
  case 0
  then show ?case by (subst packRow.simps) simp
next
  case (Suc m)
  let ?v = "packPixels (vs ! (2 * n)) (vs ! Suc (2 * n))"
  have len: "length vs = 2 * Suc n + 2 * m" "length (out[n := ?v]) = Suc n + m"
    using Suc.prems by simp_all
  have d: "drop (2 * n) vs = vs ! (2 * n) # vs ! Suc (2 * n) # drop (2 * Suc n) vs"
    using Suc.prems by (simp add: Cons_nth_drop_Suc)
  have t: "take (Suc n) (out[n := ?v]) = take n out @ [?v]"
    using Suc.prems by (simp add: take_Suc_conv_app_nth)
  have c1: "int (2 * n) < int (length vs)"
    using Suc.prems by simp
  have c2: "0 \<le> int (2 * n) \<and> int (2 * n) + 1 < int (length vs)
            \<and> 0 \<le> int n \<and> int n < int (length out)"
    using Suc.prems by simp
  have e: "int (2 * n) + 2 = int (2 * Suc n)" "int n + 1 = int (Suc n)"
    "nat (int (2 * n)) = 2 * n" "nat (int (2 * n) + 1) = Suc (2 * n)" "nat (int n) = n"
    by simp_all
  have "packRow vs (int (length vs)) (int (2 * n)) (int (2 * n)) (int n) out
      = packRow vs (int (length vs)) (int (2 * Suc n)) (int (2 * Suc n)) (int (Suc n)) (out[n := ?v])"
    by (subst packRow.simps) (simp only: c1 c2 if_True e simp_thms)
  also have "\<dots> = Inr (take (Suc n) (out[n := ?v]) @ packPairs (drop (2 * Suc n) vs))"
    by (rule Suc.IH [OF len])
  finally show ?case by (simp only: t d packPairs.simps append.simps append_assoc)
qed

lemma packRow_whole:
  assumes "even (length vs)" "length out = length vs div 2"
  shows "packRow vs (int (length vs)) 0 0 0 out = Inr (packPairs vs)"
proof -
  from assms obtain m where m: "length vs = 2 * m" by (auto elim: evenE)
  with assms have "length vs = 2 * 0 + 2 * m" "length out = 0 + m" by simp_all
  from packRow_pairs [OF this] show ?thesis by simp
qed

lemma unpack_packPairs:
  "even (length vs) \<Longrightarrow> \<forall>v\<in>set vs. v \<le> 15 \<Longrightarrow> unpackBytes (packPairs vs) = vs"
proof (induction vs rule: packPairs.induct)
  case (1 p q rest)
  then show ?case by (simp add: unpackBytes_def unpack_pack)
qed (simp_all add: unpackBytes_def)

lemma packPairs_nth:
  "i < length vs div 2 \<Longrightarrow> packPairs vs ! i = packPixels (vs ! (2 * i)) (vs ! (2 * i + 1))"
proof (induction vs arbitrary: i rule: packPairs.induct)
  case (1 p q rest)
  then show ?case by (cases i) simp_all
qed simp_all

lemma length_packPairs: "length (packPairs vs) = length vs div 2"
  by (induction vs rule: packPairs.induct) simp_all

lemma topLevel_root: "parent (h this) = None \<Longrightarrow> topLevel h this = Some this"
  by (subst topLevel.simps) simp

lemma getAbsolutePos_root: "parent (h this) = None \<Longrightarrow> getAbsolutePos h this = Some (getArea (h this))"
  by (subst getAbsolutePos.simps) simp

lemma getAbsolutePos_returns:
  assumes "topLevel h this = Some t"
  shows "\<exists>a. getAbsolutePos h this = Some a"
proof (rule topLevel.raw_induct [where P = "\<lambda>h this t. \<exists>a. getAbsolutePos h this = Some a"])
  show "topLevel h this = Some t" by fact
next
  fix f :: "heap \<Rightarrow> ref \<Rightarrow> ref option" and h this t
  assume IH: "\<And>h this t. f h this = Some t \<Longrightarrow> \<exists>a. getAbsolutePos h this = Some a"
    and step: "(case parent (h this) of None \<Rightarrow> Some this | Some p \<Rightarrow> f h p) = Some t"
  show "\<exists>a. getAbsolutePos h this = Some a"
  proof (cases "parent (h this)")
    case None
    then show ?thesis by (simp add: getAbsolutePos_root)
  next
    case (Some p)
    with step have "f h p = Some t" by simp
    from IH [OF this] obtain a where "getAbsolutePos h p = Some a" by blast
    with Some show ?thesis by (subst getAbsolutePos.simps) simp
  qed
qed

lemma packRows_one_row:
  assumes "even (length vs)" "length out = length vs div 2"
    and "obj_width this = int (length vs)"
    and "obj_x this = area_x topRange" "obj_y this = area_y topRange"
  shows "packRows this topRange
           \<lparr>area_x = 0, area_y = 0, area_width = int (length vs), area_height = 1\<rparr> vs 0 out
         = Inr (packPairs vs)"
proof -
  have last: "packRows this topRange
            \<lparr>area_x = 0, area_y = 0, area_width = int (length vs), area_height = 1\<rparr> vs 1 bs
          = Inr bs" for bs
    by (subst packRows.simps) simp
  show ?thesis
    using assms by (subst packRows.simps) (simp add: packRow_whole int_div_def last)
qed

text \<open>
  Claim C2. Packing an even-length row of 4-bit values with \<^verbatim>\<open>packToGrey\<close> stores
  one byte per pair, \<^verbatim>\<open>(v[2i] << 4) | (v[2i+1] & 0xF)\<close>, and reading the high and the
  low nibble of every byte gives the row back. The row is the buffer of a top-level
  object whose update area starts at its own position, packed into a screen buffer of
  half its length.
\<close>

theorem packToGrey_round_trip:
  assumes "even (length vs)" and "\<forall>v\<in>set vs. v \<le> 15"
    and "parent (h this) = None"
    and "frameBuffer (surface (h this)) = Some vs"
    and "obj_width (h this) = int (length vs)"
    and "obj_x (h this) = area_x (updateArea (h this))"
    and "obj_y (h this) = area_y (updateArea (h this))"
    and "length out = length vs div 2"
  shows "\<exists>bs. packToGrey h (Some out) this
                \<lparr>area_x = 0, area_y = 0, area_width = int (length vs), area_height = 1\<rparr>
              = Some (Inr (Some bs))
            \<and> length bs = length vs div 2
            \<and> (\<forall>i<length bs. bs ! i = push_bit 4 (vs ! (2 * i)) OR (vs ! (2 * i + 1) AND 0x0F))
            \<and> unpackBytes bs = vs"
proof (intro exI conjI allI impI)
  show "packToGrey h (Some out) this
          \<lparr>area_x = 0, area_y = 0, area_width = int (length vs), area_height = 1\<rparr>
        = Some (Inr (Some (packPairs vs)))"
    using assms
    by (simp add: packToGrey_def topLevel_root getAbsolutePos_root packRows_one_row)
  show "length (packPairs vs) = length vs div 2" by (rule length_packPairs)
  show "unpackBytes (packPairs vs) = vs" using assms by (simp add: unpack_packPairs) 
  fix i assume i: "i < length (packPairs vs)"
  then have "2 * i < length vs" by (simp add: length_packPairs)
  then have "vs ! (2 * i) \<le> 15" using assms(2) by simp
  then show "packPairs vs ! i = push_bit 4 (vs ! (2 * i)) OR (vs ! (2 * i + 1) AND 0x0F)"
    using i by (simp add: packPairs_nth length_packPairs packPixels_alt nibble_AND)
qed

text \<open>
  The specification's example: \<^verbatim>\<open>[0,15,3,12,7,8,1,14]\<close> packs to
  \<^verbatim>\<open>[0x0F, 0x3C, 0x78, 0x1E]\<close>, which unpacks to the row.
\<close>

theorem packToGrey_round_trip_witness:
  "packToGrey (\<lambda>_. pixelRow) (Some [0, 0, 0, 0]) 0
       \<lparr>area_x = 0, area_y = 0, area_width = 8, area_height = 1\<rparr>
     = Some (Inr (Some [0x0F, 0x3C, 0x78, 0x1E]))
   \<and> unpackBytes [0x0F, 0x3C, 0x78, 0x1E] = [0, 15, 3, 12, 7, 8, 1, 14]"
proof -
  have "\<exists>bs. packToGrey (\<lambda>_. pixelRow) (Some [0, 0, 0, 0]) 0
                \<lparr>area_x = 0, area_y = 0, area_width = int (length [0, 15, 3, 12, 7, 8, 1, 14 :: byte]), area_height = 1\<rparr>
              = Some (Inr (Some bs))
            \<and> length bs = length [0, 15, 3, 12, 7, 8, 1, 14 :: byte] div 2
            \<and> (\<forall>i<length bs. bs ! i = push_bit 4 ([0, 15, 3, 12, 7, 8, 1, 14 :: byte] ! (2 * i)) OR ([0, 15, 3, 12, 7, 8, 1, 14] ! (2 * i + 1) AND 0x0F))
            \<and> unpackBytes bs = [0, 15, 3, 12, 7, 8, 1, 14]"
    by (rule packToGrey_round_trip) (simp_all add: pixelRow_def raw_def)
  then obtain bs where bs: "packToGrey (\<lambda>_. pixelRow) (Some [0, 0, 0, 0]) 0
                \<lparr>area_x = 0, area_y = 0, area_width = 8, area_height = 1\<rparr>
              = Some (Inr (Some bs))" "unpackBytes bs = [0, 15, 3, 12, 7, 8, 1, 14]"
    by auto
  have "packToGrey (\<lambda>_. pixelRow) (Some [0, 0, 0, 0]) 0
       \<lparr>area_x = 0, area_y = 0, area_width = 8, area_height = 1\<rparr>
     = Some (Inr (Some [0x0F, 0x3C, 0x78, 0x1E]))"
    by (simp add: packToGrey_def topLevel_root getAbsolutePos_root pixelRow_def raw_def
          packRows.simps packRow.simps int_div_def packPixels_def)
  with bs show ?thesis by simp
qed

section \<open>Properties of the compositing steps\<close>

text \<open>
  Claim C9. A missing surface makes the compositing steps return without writing:
  \<^verbatim>\<open>copyToParent\<close> leaves the heap as it is when the frame buffer of the parent is
  null, and \<^verbatim>\<open>packToGrey\<close> leaves the screen buffer as it is when the frame buffer
  of the object or the screen buffer is null. Both return normally (\<open>Inr\<close>), where the
  parent chain of the object ends.
\<close>

theorem null_surface_is_noop:
  "(parent (h this) = Some p \<and> frameBuffer (surface (h p)) = None
      \<longrightarrow> copyToParent h this = Inr h)
   \<and> (topLevel h this = Some t
        \<and> (frameBuffer (surface (h this)) = None \<or> screenBuffer = None)
      \<longrightarrow> packToGrey h screenBuffer this renderArea = Some (Inr screenBuffer))"
proof (intro conjI impI)
  assume "parent (h this) = Some p \<and> frameBuffer (surface (h p)) = None"
  then show "copyToParent h this = Inr h" by (simp add: copyToParent_def)
next
  assume a: "topLevel h this = Some t
        \<and> (frameBuffer (surface (h this)) = None \<or> screenBuffer = None)"
  then obtain pos where "getAbsolutePos h this = Some pos"
    using getAbsolutePos_returns by blast
  with a show "packToGrey h screenBuffer this renderArea = Some (Inr screenBuffer)"
    by (auto simp: packToGrey_def split: option.splits)
qed


theorem null_surface_is_noop_witness:
  "copyToParent unbufferedParent 1 = Inr unbufferedParent
   \<and> packToGrey unbufferedParent None 1
        \<lparr>area_x = 0, area_y = 0, area_width = 2, area_height = 2\<rparr> = Some (Inr None)"
  using null_surface_is_noop [of unbufferedParent 1 0 0 None
          "\<lparr>area_x = 0, area_y = 0, area_width = 2, area_height = 2\<rparr>"]
  by (simp add: unbufferedParent_def raw_def TFT_eSprite_def topLevel.simps)

section \<open>The concrete scenes, field by field\<close>

lemma scene_at:
  "scene 0 = manager" "scene 2 = dialog" "scene 3 = okButton" "scene 4 = quote"
  "scene 5 = panel" "scene 6 = caption" "scene 7 = hiddenNote"
  by (simp_all add: scene_def)

lemma manager_fields:
  "kind manager = UiManager" "parent manager = None" "hwFrame manager"
  "frame_initialised manager" "objects manager = [2, 4, 5, 7]" "modal manager = Some 2"
  "visible manager"
  by (simp_all add: manager_def raw_def)

lemma dialog_fields:
  "kind dialog = UiModal" "parent dialog = Some 0" "\<not> hwFrame dialog"
  "frame_initialised dialog" "objects dialog = [3]" "visible dialog" "layer dialog = LAYER_OVERLAY"
  "obj_x dialog = 50" "obj_y dialog = 200" "obj_width dialog = 400" "obj_height dialog = 300"
  "result dialog = -1"
  by (simp_all add: dialog_def raw_def)

lemma okButton_fields:
  "kind okButton = UiButton" "parent okButton = Some 2" "visible okButton"
  "layer okButton = LAYER_CENTRE" "label_initialised okButton" "callback okButton = Some 9"
  "useStdFunction okButton" "stdCallback okButton = Some (OkPressed 2)"
  "obj_x okButton = 100" "obj_y okButton = 200" "obj_width okButton = 80" "obj_height okButton = 54"
  by (simp_all add: okButton_def raw_def)

lemma quote_fields:
  "kind quote = UiLabel" "parent quote = Some 0" "visible quote" "layer quote = LAYER_LOWER"
  "obj_x quote = 60" "obj_y quote = 150" "obj_width quote = 410" "obj_height quote = 40"
  by (simp_all add: quote_def raw_def)

lemma panel_fields:
  "kind panel = UiFrame" "parent panel = Some 0" "visible panel" "layer panel = LAYER_CENTRE"
  "\<not> hwFrame panel" "frame_initialised panel" "objects panel = [6]"
  "obj_x panel = 120" "obj_y panel = 400" "obj_width panel = 350" "obj_height panel = 300"
  by (simp_all add: panel_def raw_def)

lemma caption_fields:
  "kind caption = UiLabel" "parent caption = Some 5" "visible caption" 
  "obj_x caption = 20" "obj_y caption = 20" "obj_width caption = 100" "obj_height caption = 40"
  by (simp_all add: caption_def raw_def)

lemma hiddenNote_fields:
  "kind hiddenNote = UiLabel" "parent hiddenNote = Some 0" "\<not> visible hiddenNote"
  "obj_x hiddenNote = 10" "obj_y hiddenNote = 800" "obj_width hiddenNote = 100" "obj_height hiddenNote = 40"
  by (simp_all add: hiddenNote_def raw_def)

lemmas scene_simps = scene_at manager_fields dialog_fields okButton_fields quote_fields
  panel_fields caption_fields hiddenNote_fields

lemma depth_Suc: "depth = Suc (Suc (Suc (Suc 0)))"
  by (simp add: depth_def eval_nat_numeral)


section \<open>Properties of exposure and hiding\<close>

lemma exposureOnly_refl: "exposureOnly h h"
  unfolding exposureOnly_def
proof
  fix q
  have "h q = (h q)\<lparr>exposed := exposed (h q), exposeArea := exposeArea (h q)\<rparr>" by simp
  then show "\<exists>e a. h q = (h q)\<lparr>exposed := e, exposeArea := a\<rparr>" by blast
qed

lemma exposureOnly_trans: "exposureOnly h h1 \<Longrightarrow> exposureOnly h1 h2 \<Longrightarrow> exposureOnly h h2"
  unfolding exposureOnly_def
proof
  fix q
  assume a: "\<forall>q. \<exists>e a. h1 q = (h q)\<lparr>exposed := e, exposeArea := a\<rparr>"
    and b: "\<forall>q. \<exists>e a. h2 q = (h1 q)\<lparr>exposed := e, exposeArea := a\<rparr>"
  from a obtain e1 a1 where 1: "h1 q = (h q)\<lparr>exposed := e1, exposeArea := a1\<rparr>" by blast
  from b obtain e2 a2 where 2: "h2 q = (h1 q)\<lparr>exposed := e2, exposeArea := a2\<rparr>" by blast
  have "h2 q = (h q)\<lparr>exposed := e2, exposeArea := a2\<rparr>" by (simp add: 1 2)
  then show "\<exists>e a. h2 q = (h q)\<lparr>exposed := e, exposeArea := a\<rparr>" by blast
qed

lemma exposureOnly_UiObj_expose: "exposureOnly h (UiObj_expose h this a)"
  unfolding exposureOnly_def UiObj_expose_def
proof
  fix q
  show "\<exists>e aa. (h(this := (h this)\<lparr>exposed := True, exposeArea := a\<rparr>)) q = (h q)\<lparr>exposed := e, exposeArea := aa\<rparr>"
  proof (cases "q = this")
    case True
    then show ?thesis by auto
  next
    case False
    have "h q = (h q)\<lparr>exposed := exposed (h q), exposeArea := exposeArea (h q)\<rparr>" by simp
    with False show ?thesis by (metis fun_upd_other)
  qed
qed

lemma expose_exposureOnly:
  "expose n h this a = Some h' \<Longrightarrow> exposureOnly h h'"
  "exposeObjects n h objs a = Some h' \<Longrightarrow> exposureOnly h h'"
proof (induction n h this a and n h objs a arbitrary: h' and h' rule: expose_exposeObjects.induct)
  case (1 h this xArea)
  then show ?case by simp
next
  case (2 n h this xArea)
  then show ?case
    by (auto simp: exposureOnly_UiObj_expose split: if_splits)
next
  case (3 n h xArea)
  then show ?case by (simp add: exposureOnly_refl)
next
  case (4 n h obj rest xArea)
  show ?case
  proof (cases "visible (h obj) \<and> withinArea xArea (h obj)")
    case True
    with "4.prems" obtain h1 where h1: "expose n h obj (childOffset (h obj) xArea) = Some h1"
      and r: "exposeObjects n h1 rest xArea = Some h'"
      by (auto split: option.splits)
    from "4.IH"(1) [OF True h1] "4.IH"(2) [OF True h1 r] show ?thesis
      by (rule exposureOnly_trans)
  next
    case False
    with "4.prems" "4.IH"(3) show ?thesis by auto
  qed
qed

lemma exposureOnly_fields:
  assumes "exposureOnly h h'"
  shows "visible (h' q) = visible (h q) \<and> visibilityChanged (h' q) = visibilityChanged (h q)
    \<and> result (h' q) = result (h q) \<and> kind (h' q) = kind (h q) \<and> objects (h' q) = objects (h q)
    \<and> parent (h' q) = parent (h q) \<and> hwFrame (h' q) = hwFrame (h q)"
proof -
  from assms obtain e a where "h' q = (h q)\<lparr>exposed := e, exposeArea := a\<rparr>"
    unfolding exposureOnly_def by blast
  then show ?thesis by simp
qed

text \<open>
  Claim C10. \<^verbatim>\<open>hide()\<close> on an object that is not visible returns with the whole heap
  unchanged: no flag is set and the top-level object is not asked to expose anything.
  On a visible object a call that returns has cleared \<^verbatim>\<open>visible\<close> and set
  \<^verbatim>\<open>visibilityChanged\<close>, so the heap has changed.
\<close>

theorem hide_hidden_is_noop:
  "(\<not> visible (h this) \<longrightarrow> hide n h this = Some h)
   \<and> (visible (h this) \<and> hide n h this = Some h'
        \<longrightarrow> \<not> visible (h' this) \<and> visibilityChanged (h' this) \<and> h' \<noteq> h)"
proof (rule conjI; rule impI)
  assume "\<not> visible (h this)"
  then show "hide n h this = Some h" by (simp add: hide_def)
next
  assume a: "visible (h this) \<and> hide n h this = Some h'"
  let ?h1 = "h(this := (h this)\<lparr>visible := False, visibilityChanged := True\<rparr>)"
  from a obtain t where "expose n ?h1 t (getArea (?h1 this)) = Some h'"
    by (auto simp: hide_def Let_def split: Option.bind_splits)
  then have "exposureOnly ?h1 h'" by (rule expose_exposureOnly)
  from exposureOnly_fields [OF this, of this]
  have v: "\<not> visible (h' this)" "visibilityChanged (h' this)" by simp_all
  with a have "h' \<noteq> h" by auto
  with v show "\<not> visible (h' this) \<and> visibilityChanged (h' this) \<and> h' \<noteq> h" by simp
qed

theorem hide_hidden_is_noop_witness:
  "hide 3 scene 7 = Some scene
   \<and> hide 3 scene 4 = Some (scene(4 := quote\<lparr>visible := False, visibilityChanged := True\<rparr>))
   \<and> scene(4 := quote\<lparr>visible := False, visibilityChanged := True\<rparr>) \<noteq> scene"
proof -
  have a: "\<not> visible (scene 7)" by (simp add: scene_simps)
  have b: "visible (scene 4)" by (simp add: scene_simps)
  have c: "hide 3 scene 4 = Some (scene(4 := quote\<lparr>visible := False, visibilityChanged := True\<rparr>))"
    by (simp add: hide_def Let_def topLevel.simps getArea_def withinArea_def numeral_3_eq_3 isFrame_def scene_simps)
  from hide_hidden_is_noop [of scene 7 3] a
    hide_hidden_is_noop [of scene 4 3 "scene(4 := quote\<lparr>visible := False, visibilityChanged := True\<rparr>)"] b c
  show ?thesis by simp
qed

lemma expose_recordsExposure:
  "recordsExposure (h this) \<Longrightarrow> expose (Suc n) h this a = Some (UiObj_expose h this a)"
  by (auto simp: recordsExposure_def)

lemma exposeObjects_recordsExposure:
  "distinct objs \<Longrightarrow> \<forall>c\<in>set objs. recordsExposure (h c) \<Longrightarrow>
   exposeObjects (Suc n) h objs xArea = Some (exposedChildren h objs xArea)"
proof (induction objs arbitrary: h)
  case Nil
  then show ?case by (simp add: exposedChildren_def)
next
  case (Cons obj rest)
  show ?case
  proof (cases "visible (h obj) \<and> withinArea xArea (h obj)")
    case True
    let ?h1 = "UiObj_expose h obj (childOffset (h obj) xArea)"
    have other: "?h1 q = h q" if "q \<noteq> obj" for q
      using that by (simp add: UiObj_expose_def)
    have "\<forall>c\<in>set rest. recordsExposure (?h1 c)"
    proof
      fix c assume c: "c \<in> set rest"
      with Cons.prems have "c \<noteq> obj" by auto
      with c Cons.prems show "recordsExposure (?h1 c)" by (simp add: other)
    qed
    with Cons.IH [of ?h1] Cons.prems
    have "exposeObjects (Suc n) ?h1 rest xArea = Some (exposedChildren ?h1 rest xArea)"
      by simp
    moreover have "exposedChildren ?h1 rest xArea = exposedChildren h (obj # rest) xArea"
    proof
      fix q
      show "exposedChildren ?h1 rest xArea q = exposedChildren h (obj # rest) xArea q"
      proof (cases "q = obj")
        case True
        with Cons.prems \<open>visible (h obj) \<and> withinArea xArea (h obj)\<close> show ?thesis
          by (simp add: exposedChildren_def UiObj_expose_def)
      next
        case False
        then show ?thesis by (simp add: exposedChildren_def other)
      qed
    qed
    ultimately show ?thesis
      using True Cons.prems by (simp add: expose_recordsExposure del: expose.simps)
  next
    case False
    have "exposedChildren h rest xArea = exposedChildren h (obj # rest) xArea"
    proof
      fix q
      show "exposedChildren h rest xArea q = exposedChildren h (obj # rest) xArea q"
        using False by (auto simp: exposedChildren_def)
    qed
    moreover from False have "exposeObjects (Suc n) h (obj # rest) xArea
        = exposeObjects (Suc n) h rest xArea"
      by (auto simp del: expose.simps)
    ultimately show ?thesis using Cons.IH [of h] Cons.prems by simp
  qed
qed

text \<open>
  Claim C3, as amended. A frame that neither draws to the hardware nor lacks a parent
  does not forward an exposure to its container: \<^verbatim>\<open>UiFrame::expose\<close> calls
  \<^verbatim>\<open>UiObj::expose\<close>, which records the area on the frame itself and changes nothing
  else. A frame that draws to the hardware or has no parent hands the area to each
  visible child whose bounds lie inside it, moved by \<^verbatim>\<open>childOffset\<close> to the child's
  coordinates (for a child with a parent); of these children, each that is not itself
  such a frame records the area on itself, and no other object changes.
\<close>

theorem frame_expose:
  assumes "isFrame (kind (h this))"
  shows "(\<not> hwFrame (h this) \<and> parent (h this) \<noteq> None
            \<longrightarrow> expose (Suc n) h this xArea
                  = Some (h(this := (h this)\<lparr>exposed := True, exposeArea := xArea\<rparr>)))
       \<and> ((hwFrame (h this) \<or> parent (h this) = None)
            \<and> distinct (objects (h this))
            \<and> (\<forall>c\<in>set (objects (h this)). recordsExposure (h c))
            \<longrightarrow> expose (Suc (Suc n)) h this xArea
                  = Some (\<lambda>q. if q \<in> set (objects (h this)) \<and> visible (h q)
                                    \<and> withinArea xArea (h q)
                              then (h q)\<lparr>exposed := True,
                                         exposeArea := childOffset (h q) xArea\<rparr>
                              else h q))
       \<and> (parent child \<noteq> None
            \<longrightarrow> childOffset child xArea
                  = \<lparr>area_x = area_x xArea - obj_x child, area_y = area_y xArea - obj_y child,
                     area_width = area_width xArea, area_height = area_height xArea\<rparr>)"
proof (intro conjI; rule impI)
  assume "\<not> hwFrame (h this) \<and> parent (h this) \<noteq> None"
  with assms show "expose (Suc n) h this xArea
        = Some (h(this := (h this)\<lparr>exposed := True, exposeArea := xArea\<rparr>))"
    by (auto simp: UiObj_expose_def)
next
  assume a: "(hwFrame (h this) \<or> parent (h this) = None)
            \<and> distinct (objects (h this))
            \<and> (\<forall>c\<in>set (objects (h this)). recordsExposure (h c))"
  then have "exposeObjects (Suc n) h (objects (h this)) xArea
               = Some (exposedChildren h (objects (h this)) xArea)"
    by (simp add: exposeObjects_recordsExposure)
  with assms a show "expose (Suc (Suc n)) h this xArea
                  = Some (\<lambda>q. if q \<in> set (objects (h this)) \<and> visible (h q)
                                    \<and> withinArea xArea (h q)
                              then (h q)\<lparr>exposed := True,
                                         exposeArea := childOffset (h q) xArea\<rparr>
                              else h q)"
    by (auto simp: exposedChildren_def simp del: exposeObjects.simps)
next
  assume "parent child \<noteq> None"
  then show "childOffset child xArea
                  = \<lparr>area_x = area_x xArea - obj_x child, area_y = area_y xArea - obj_y child,
                     area_width = area_width xArea, area_height = area_height xArea\<rparr>"
    by (auto simp: childOffset_def)
qed

text \<open>
  The claim as stated fails in the scene: the frame at address 5 is buffered and has
  the manager as its parent, and an exposure of the whole screen stays on the frame. The
  label at address 4, which the manager would have exposed, is not.
\<close>

theorem frame_expose_counterexample:
  "expose depth scene 5 wholeScreen
     = Some (scene(5 := panel\<lparr>exposed := True, exposeArea := wholeScreen\<rparr>))
   \<and> \<not> exposed (scene 4)
   \<and> map_option (\<lambda>h'. exposed (h' 4)) (expose depth scene 0 wholeScreen) = Some True"
  by (simp add: depth_Suc isFrame_def UiObj_expose_def withinArea_def wholeScreen_def
        scene_simps quote_def raw_def)

theorem frame_expose_witness:
  "expose 4 scene 5 wholeScreen
     = Some (scene(5 := panel\<lparr>exposed := True, exposeArea := wholeScreen\<rparr>))
   \<and> expose 4 scene 0 wholeScreen
     = Some (\<lambda>q. if q \<in> set [2, 4, 5, 7] \<and> visible (scene q) \<and> withinArea wholeScreen (scene q)
                 then (scene q)\<lparr>exposed := True, exposeArea := childOffset (scene q) wholeScreen\<rparr>
                 else scene q)
   \<and> childOffset panel wholeScreen
     = \<lparr>area_x = -120, area_y = -400, area_width = 540, area_height = 960\<rparr>"
proof -
  have r: "recordsExposure (scene 2)" "recordsExposure (scene 4)" "recordsExposure (scene 5)"
    "recordsExposure (scene 7)"
    by (simp_all add: recordsExposure_def isFrame_def scene_simps)
  have f: "isFrame (kind (scene 5))" "isFrame (kind (scene 0))"
    by (simp_all add: isFrame_def scene_simps)
  from frame_expose [where h = scene and this = 5 and n = 3 and xArea = wholeScreen
                       and child = panel, OF f(1)]
    frame_expose [where h = scene and this = 0 and n = 2 and xArea = wholeScreen
                    and child = panel, OF f(2)] r
  show ?thesis
    by (simp add: scene_simps childOffset_def wholeScreen_def)
qed

section \<open>Properties of the touch dispatch\<close>










section \<open>Properties of the modal dialog\<close>













section \<open>Properties of the update area of a frame\<close>

lemma alignWidth_rounds:
  "area_width (alignWidth True ua) = ((area_width ua + 3) div 4) * 4"
  "4 dvd area_width (alignWidth True ua)"
  "area_width ua \<le> area_width (alignWidth True ua)"
  "area_width (alignWidth True ua) < area_width ua + 4"
  by (simp_all add: alignWidth_def push_bit_eq_mult drop_bit_eq_div)

lemma frameDepth_cong:
  assumes "\<And>q. kind (h' q) = kind (h q) \<and> objects (h' q) = objects (h q)"
  shows "frameDepth n h' this = frameDepth n h this"
proof (induction n arbitrary: this)
  case 0
  show ?case by simp
next
  case (Suc n)
  have l: "list_all (frameDepth n h') xs = list_all (frameDepth n h) xs" for xs
    using Suc.IH by (induction xs) simp_all
  show ?case by (simp only: frameDepth.simps assms l)
qed

lemma frameDepth_Suc: "frameDepth n h this \<Longrightarrow> frameDepth (Suc n) h this"
proof (induction n arbitrary: this)
  case 0
  then show ?case by simp
next
  case (Suc n)
  have "list_all (frameDepth (Suc n) h) xs" if "list_all (frameDepth n h) xs" for xs
    using that Suc.IH by (induction xs) simp_all
  with Suc.prems show ?case by (simp split: if_splits)
qed

lemma isObjectChanged_returns:
  "isUpdated n h obj = Some b \<Longrightarrow> \<exists>c. isObjectChanged n h obj = Some c"
  by (auto simp: isObjectChanged.simps)

lemma isUpdated_returns:
  "frameDepth n h this \<Longrightarrow> \<exists>b. isUpdated n h this = Some b"
proof (induction n arbitrary: this)
  case 0
  then show ?case by simp
next
  case (Suc n)
  have "\<exists>b. anyObjectChanged n h objs = Some b" if "list_all (frameDepth n h) objs" for objs
    using that
  proof (induction objs)
    case Nil
    show ?case by auto
  next
    case (Cons obj rest)
    then have "frameDepth n h obj" by simp
    from Suc.IH [OF this] obtain u where "isUpdated n h obj = Some u" by blast
    from isObjectChanged_returns [OF this] obtain c
      where c: "isObjectChanged n h obj = Some c" by blast
    from Cons obtain r where "anyObjectChanged n h rest = Some r" by auto
    with c show ?case by (cases c) auto
  qed
  with Suc.prems show ?case by (auto split: if_splits)
qed

lemma updateBelow_fields:
  "kind (updateBelow h obj objs q) = kind (h q) \<and> objects (updateBelow h obj objs q) = objects (h q)
   \<and> hwFrame (updateBelow h obj objs q) = hwFrame (h q)
   \<and> obj_width (updateBelow h obj objs q) = obj_width (h q)
   \<and> obj_height (updateBelow h obj objs q) = obj_height (h q)
   \<and> (q \<notin> set objs \<longrightarrow> updateBelow h obj objs q = h q)"
  by (induction objs arbitrary: h) auto

lemma markBelowHidden_fields:
  "kind (markBelowHidden h this objs q) = kind (h q)
   \<and> objects (markBelowHidden h this objs q) = objects (h q)
   \<and> hwFrame (markBelowHidden h this objs q) = hwFrame (h q)
   \<and> obj_width (markBelowHidden h this objs q) = obj_width (h q)
   \<and> obj_height (markBelowHidden h this objs q) = obj_height (h q)
   \<and> (q \<notin> set (objects (h this)) \<longrightarrow> markBelowHidden h this objs q = h q)"
proof (induction objs arbitrary: h)
  case Nil
  show ?case by simp
next
  case (Cons obj rest)
  let ?h = "updateBelow h obj (objects (h this))"
  have o: "objects (?h this) = objects (h this)" by (simp add: updateBelow_fields)
  from Cons [of ?h] Cons [of h] updateBelow_fields [of h obj "objects (h this)" q] o
  show ?case by auto
qed

lemma resetAndMark_fields:
  "kind (resetAndMark h this q) = kind (h q) \<and> objects (resetAndMark h this q) = objects (h q)
   \<and> hwFrame (resetAndMark h this q) = hwFrame (h q)
   \<and> obj_width (resetAndMark h this q) = obj_width (h q)
   \<and> obj_height (resetAndMark h this q) = obj_height (h q)"
  unfolding resetAndMark_def Let_def
  using markBelowHidden_fields
    [of "h(this := (h this)\<lparr>updateArea := \<lparr>area_x = -1, area_y = -1, area_width = 0, area_height = 0\<rparr>\<rparr>)" this _ q]
  by auto

lemma accumulateArea_returns:
  "list_all (frameDepth n h) objs \<Longrightarrow> \<exists>h'. accumulateArea n h this objs = Some h'"
proof (induction objs arbitrary: h)
  case Nil
  show ?case by simp
next
  case (Cons obj rest)
  from Cons.prems have "frameDepth n h obj" by simp
  from isUpdated_returns [OF this] obtain u where "isUpdated n h obj = Some u" by blast
  from isObjectChanged_returns [OF this] obtain c
    where c: "isObjectChanged n h obj = Some c" by blast
  show ?case
  proof (cases c)
    case True
    let ?h = "h(this := (h this)\<lparr>updateArea := extendArea (updateArea (h this)) (h obj)\<rparr>)"
    have "frameDepth n ?h q = frameDepth n h q" for q
      by (rule frameDepth_cong) simp
    then have "list_all (frameDepth n ?h) rest = list_all (frameDepth n h) rest"
      by (induction rest) simp_all
    with Cons.prems have "list_all (frameDepth n ?h) rest" by simp
    from Cons.IH [OF this] obtain h' where "accumulateArea n ?h this rest = Some h'" by blast
    with c True show ?thesis by simp
  next
    case False
    from Cons.prems have "list_all (frameDepth n h) rest" by simp
    from Cons.IH [OF this] obtain h' where "accumulateArea n h this rest = Some h'" by blast
    with c False show ?thesis by simp
  qed
qed

lemma accumulateArea_hwFrame:
  "accumulateArea n h this objs = Some h' \<Longrightarrow> hwFrame (h' q) = hwFrame (h q)"
proof (induction objs arbitrary: h)
  case Nil
  then show ?case by simp
next
  case (Cons obj rest)
  then show ?case
    by (auto split: option.splits bool.splits if_splits)
qed

lemma twoLabels_at:
  "twoLabels 2 = firstAdded" "twoLabels 3 = secondAdded"
  "kind (twoLabels 0) = UiFrame" "frame_initialised (twoLabels 0)" "itemsChanged (twoLabels 0)"
  "objects (twoLabels 0) = [2, 3]" "\<not> visibilityChanged (twoLabels 0)"
  "\<not> hwFrame (twoLabels 0)"
  by (simp_all add: twoLabels_def raw_def)

lemma firstAdded_fields:
  "kind firstAdded = UiLabel" "initialised firstAdded" "updated firstAdded" "visible firstAdded"
  "\<not> visibilityChanged firstAdded" "newParent firstAdded"
  "obj_x firstAdded = 100" "obj_y firstAdded = 0" "obj_width firstAdded = 50"
  "obj_height firstAdded = 10"
  by (simp_all add: firstAdded_def raw_def)

lemma secondAdded_fields:
  "kind secondAdded = UiLabel" "initialised secondAdded" "updated secondAdded"
  "visible secondAdded" "\<not> visibilityChanged secondAdded" "newParent secondAdded"
  "obj_x secondAdded = 0" "obj_y secondAdded = 0" "obj_width secondAdded = 10"
  "obj_height secondAdded = 10"
  by (simp_all add: secondAdded_def raw_def)

lemmas twoLabels_simps = twoLabels_at firstAdded_fields secondAdded_fields

lemma hwTwoLabels_at:
  "hwTwoLabels 2 = firstAdded" "hwTwoLabels 3 = secondAdded"
  "kind (hwTwoLabels 0) = UiFrame" "frame_initialised (hwTwoLabels 0)"
  "itemsChanged (hwTwoLabels 0)" "objects (hwTwoLabels 0) = [2, 3]"
  "\<not> visibilityChanged (hwTwoLabels 0)" "hwFrame (hwTwoLabels 0)"
  by (simp_all add: hwTwoLabels_def twoLabels_simps)

lemma label_changed:
  "kind (h obj) = UiLabel \<Longrightarrow> initialised (h obj) \<Longrightarrow> newParent (h obj)
   \<Longrightarrow> isObjectChanged (Suc n) h obj = Some True"
  by (simp add: isObjectChanged.simps isFrame_def)

lemma two_labels_accumulated:
  assumes "h 2 = firstAdded" "h 3 = secondAdded" "objects (h 0) = [2, 3]"
    and "updateArea (h 0) = \<lparr>area_x = -1, area_y = -1, area_width = 0, area_height = 0\<rparr>"
  shows "accumulated (Suc n) h 0
          = Some (h(0 := (h 0)\<lparr>updateArea :=
                    \<lparr>area_x = 0, area_y = 0, area_width = 50, area_height = 10\<rparr>\<rparr>))"
proof -
  let ?h1 = "h(0 := (h 0)\<lparr>updateArea :=
                \<lparr>area_x = 100, area_y = 0, area_width = 50, area_height = 10\<rparr>\<rparr>)"
  have c2: "isObjectChanged (Suc n) h 2 = Some True"
    by (rule label_changed) (simp_all add: assms firstAdded_fields)
  have c3: "isObjectChanged (Suc n) ?h1 3 = Some True"
    by (rule label_changed) (simp_all add: assms secondAdded_fields)
  have e1: "extendArea (updateArea (h 0)) (h 2)
              = \<lparr>area_x = 100, area_y = 0, area_width = 50, area_height = 10\<rparr>"
    by (simp add: extendArea_def assms firstAdded_fields)
  have e2: "extendArea \<lparr>area_x = 100, area_y = 0, area_width = 50, area_height = 10\<rparr> (h 3)
              = \<lparr>area_x = 0, area_y = 0, area_width = 50, area_height = 10\<rparr>"
    by (simp add: extendArea_def assms secondAdded_fields)
  have "accumulateArea (Suc n) h 0 [2, 3]
          = Some (h(0 := (h 0)\<lparr>updateArea :=
                    \<lparr>area_x = 0, area_y = 0, area_width = 50, area_height = 10\<rparr>\<rparr>))"
    by (simp add: c2 c3 e1 e2)
  then show ?thesis
    by (simp add: accumulated_def assms clampOrigin_def)
qed

lemma two_labels_marked:
  assumes "h 2 = firstAdded" "h 3 = secondAdded" "objects (h 0) = [2, 3]"
  shows "resetAndMark h 0
          = h(0 := (h 0)\<lparr>updateArea :=
                 \<lparr>area_x = -1, area_y = -1, area_width = 0, area_height = 0\<rparr>\<rparr>)"
  by (simp add: resetAndMark_def Let_def assms firstAdded_fields secondAdded_fields)

text \<open>
  Claim C1, on the code. The claim says that the update area contains every changed
  child. The second loop of \<^verbatim>\<open>getUpdateArea\<close> keeps the width relative to the current
  x, and does not widen it when a later child moves x to the left: with a first child
  from x = 100 to 150 and a second from x = 0 to 10, both changed, the area is x = 0,
  width 50, and the first child lies outside it.
\<close>

theorem update_area_misses_child:
  "map_option fst (UiFrame_getUpdateArea depth twoLabels 0)
     = Some \<lparr>area_x = 0, area_y = 0, area_width = 50, area_height = 10\<rparr>
   \<and> isObjectChanged depth twoLabels 2 = Some True
   \<and> obj_x (twoLabels 2) = 100 \<and> obj_width (twoLabels 2) = 50"
proof -
  let ?h1 = "twoLabels(0 := (twoLabels 0)\<lparr>updateArea :=
                 \<lparr>area_x = -1, area_y = -1, area_width = 0, area_height = 0\<rparr>\<rparr>)"
  have m: "resetAndMark twoLabels 0 = ?h1"
    by (rule two_labels_marked) (simp_all add: twoLabels_simps)
  have a: "accumulated depth ?h1 0
          = Some (?h1(0 := (?h1 0)\<lparr>updateArea :=
                    \<lparr>area_x = 0, area_y = 0, area_width = 50, area_height = 10\<rparr>\<rparr>))"
    unfolding depth_Suc by (rule two_labels_accumulated) (simp_all add: twoLabels_simps)
  have u: "isUpdated depth twoLabels 0 = Some True"
    by (simp add: depth_Suc isFrame_def twoLabels_simps)
  have "map_option fst (UiFrame_getUpdateArea depth twoLabels 0)
     = Some \<lparr>area_x = 0, area_y = 0, area_width = 50, area_height = 10\<rparr>"
    by (simp add: UiFrame_getUpdateArea_def Let_def u m a alignWidth_def twoLabels_simps)
  moreover have "isObjectChanged depth twoLabels 2 = Some True"
    unfolding depth_Suc by (rule label_changed) (simp_all add: twoLabels_simps)
  ultimately show ?thesis by (simp add: twoLabels_simps)
qed

text \<open>
  Claim C6, as amended. For a frame that draws to the hardware, is initialised and whose
  frames are nested within the bound, \<^verbatim>\<open>getUpdateArea()\<close> returns; when it
  accumulates the changed children, the width it returns is the accumulated width
  rounded up to the next multiple of 4, that is ((w + 3) div 4) * 4: divisible by 4, at
  least w and less than w + 4. When the frame is unchanged the area is empty; when the
  visibility of the frame itself has changed the area is the whole frame, with the width
  of the frame as it is, not rounded.
\<close>

theorem hw_update_width:
  assumes "isFrame (kind (h this))" and "hwFrame (h this)" and "frame_initialised (h this)"
    and "frameDepth n h this"
  shows "\<exists>ua h'. UiFrame_getUpdateArea n h this = Some (ua, h')
          \<and> (if isUpdated n h this = Some True
              then (if visibilityChanged (resetAndMark h this this)
                    then ua = \<lparr>area_x = 0, area_y = 0, area_width = obj_width (h this),
                                area_height = obj_height (h this)\<rparr>
                    else (\<exists>h3. accumulated n (resetAndMark h this) this = Some h3
                            \<and> area_width ua = ((area_width (updateArea (h3 this)) + 3) div 4) * 4
                            \<and> 4 dvd area_width ua
                            \<and> area_width (updateArea (h3 this)) \<le> area_width ua
                            \<and> area_width ua < area_width (updateArea (h3 this)) + 4))
              else ua = zero_area)"
proof -
  from isUpdated_returns [OF assms(4)] obtain u where u: "isUpdated n h this = Some u" by blast
  show ?thesis
  proof (cases u)
    case False
    with u assms(3) show ?thesis by (simp add: UiFrame_getUpdateArea_def)
  next
    case True
    let ?h2 = "resetAndMark h this"
    show ?thesis
    proof (cases "visibilityChanged (?h2 this)")
      case vc: True
      with u \<open>u\<close> assms(3) resetAndMark_fields [of h this this] show ?thesis
        by (simp add: UiFrame_getUpdateArea_def Let_def)
    next
      case vc: False
      from assms(4) obtain m where m: "n = Suc m" by (cases n) simp_all
      with assms(1,4) have "list_all (frameDepth m h) (objects (h this))" by simp
      moreover have "list_all (frameDepth (Suc m) h) xs" if "list_all (frameDepth m h) xs" for xs
        using that by (induction xs) (simp_all add: frameDepth_Suc del: frameDepth.simps)
      ultimately have "list_all (frameDepth n h) (objects (h this))"
        unfolding m by blast
      moreover have "frameDepth n ?h2 q = frameDepth n h q" for q
        by (rule frameDepth_cong) (simp add: resetAndMark_fields)
      then have "list_all (frameDepth n ?h2) xs = list_all (frameDepth n h) xs" for xs
        by (induction xs) simp_all
      moreover have "objects (?h2 this) = objects (h this)" by (simp add: resetAndMark_fields)
      ultimately have "list_all (frameDepth n ?h2) (objects (?h2 this))" by simp
      from accumulateArea_returns [OF this] obtain ha
        where ha: "accumulateArea n ?h2 this (objects (?h2 this)) = Some ha" by blast
      let ?h3 = "ha(this := (ha this)\<lparr>updateArea := clampOrigin (updateArea (ha this))\<rparr>)"
      have acc: "accumulated n ?h2 this = Some ?h3" by (simp add: accumulated_def ha)
      have "hwFrame (ha this) = hwFrame (?h2 this)" using ha by (rule accumulateArea_hwFrame)
      with assms(2) have hw: "hwFrame (?h3 this)" by (simp add: resetAndMark_fields)
      let ?ua = "alignWidth True (updateArea (?h3 this))"
      have "UiFrame_getUpdateArea n h this
              = Some (?ua, ?h3(this := (?h3 this)\<lparr>updateArea := ?ua\<rparr>))"
        using u \<open>u\<close> assms(3) vc acc hw by (simp add: UiFrame_getUpdateArea_def Let_def)
      with u \<open>u\<close> vc acc alignWidth_rounds [of "updateArea (?h3 this)"] show ?thesis
        by simp
    qed
  qed
qed

text \<open>
  The claim as stated, for every frame that draws to the hardware, fails on a frame 10
  pixels wide that has just been shown: the width returned is 10.
\<close>

theorem hw_update_width_counterexample:
  "map_option fst (UiFrame_getUpdateArea depth shownFrame 0)
     = Some \<lparr>area_x = 0, area_y = 0, area_width = 10, area_height = 10\<rparr>
   \<and> hwFrame (shownFrame 0) \<and> \<not> (4::int) dvd 10"
  by (simp add: UiFrame_getUpdateArea_def depth_Suc isFrame_def resetAndMark_def Let_def
        shownFrame_def raw_def)

theorem hw_update_width_witness:
  "map_option fst (UiFrame_getUpdateArea depth hwTwoLabels 0)
     = Some \<lparr>area_x = 0, area_y = 0, area_width = 52, area_height = 10\<rparr>
   \<and> map_option (\<lambda>h3. area_width (updateArea (h3 0)))
        (accumulated depth (resetAndMark hwTwoLabels 0) 0) = Some 50"
proof -
  let ?h1 = "hwTwoLabels(0 := (hwTwoLabels 0)\<lparr>updateArea :=
                 \<lparr>area_x = -1, area_y = -1, area_width = 0, area_height = 0\<rparr>\<rparr>)"
  have f: "isFrame (kind (hwTwoLabels 0))" "hwFrame (hwTwoLabels 0)"
    "frame_initialised (hwTwoLabels 0)" "frameDepth depth hwTwoLabels 0"
    by (simp_all add: depth_Suc isFrame_def hwTwoLabels_at firstAdded_fields secondAdded_fields)
  have m: "resetAndMark hwTwoLabels 0 = ?h1"
    by (rule two_labels_marked) (simp_all add: hwTwoLabels_at)
  have a: "accumulated depth ?h1 0
          = Some (?h1(0 := (?h1 0)\<lparr>updateArea :=
                    \<lparr>area_x = 0, area_y = 0, area_width = 50, area_height = 10\<rparr>\<rparr>))"
    unfolding depth_Suc by (rule two_labels_accumulated) (simp_all add: hwTwoLabels_at)
  have u: "isUpdated depth hwTwoLabels 0 = Some True"
    by (simp add: depth_Suc isFrame_def hwTwoLabels_at)
  from hw_update_width [OF f] obtain ua h'
    where r: "UiFrame_getUpdateArea depth hwTwoLabels 0 = Some (ua, h')"
      and w: "\<exists>h3. accumulated depth (resetAndMark hwTwoLabels 0) 0 = Some h3
                \<and> area_width ua = ((area_width (updateArea (h3 0)) + 3) div 4) * 4"
    by (auto simp: u m hwTwoLabels_at)
  have "map_option fst (UiFrame_getUpdateArea depth hwTwoLabels 0)
     = Some \<lparr>area_x = 0, area_y = 0, area_width = 52, area_height = 10\<rparr>"
    by (simp add: UiFrame_getUpdateArea_def Let_def u m a alignWidth_def hwTwoLabels_at
          push_bit_eq_mult drop_bit_eq_div)
  with r w m a show ?thesis by simp
qed

section \<open>Properties of the label\<close>

lemma autosized_before_resize:
  "UiLabel_autosized textWidth fontHeight x y str mem
     = autoResize textWidth fontHeight True
         (mem\<lparr>obj_x := x, obj_y := y, obj_width := 0, obj_height := 0,
              surface := TFT_eSprite, unbuffered := True, hardwareDraw := False,
              visible := True, layer := LAYER_CENTRE, initialised := True,
              visibilityChanged := False, parent := None, newParent := False,
              drawn := False, exposed := False, updateArea := zero_area,
              label_text := str, textSize := 3, customFont := False,
              label_initialised := True, xPad := 10, yPad := 10, hasOutline := True,
              outlineThickness := 10, resizeNeeded := True, hasPreRender := False,
              updated := True, autosize := True\<rparr>)"
  by (simp add: UiLabel_autosized_def UiObj_def UiObj_init_def UiLabel_init_def
        setOutline_def initDefaults_def Let_def)

text \<open>
  Claim C7, as amended. \<^verbatim>\<open>autoResize\<close> sets the width to the text width plus twice the
  horizontal padding plus twice the outline thickness, and the height to the font height
  plus twice the vertical padding plus twice the outline thickness. The buffer gets this
  size when the label is resized (\<^verbatim>\<open>init\<close> false) or when it is unbuffered and has no
  sprite yet, provided both sizes are at least 1; \<^verbatim>\<open>autoResize(true)\<close> on a buffered
  label leaves the sprite as it was. A label built by \<^verbatim>\<open>UiLabel(x, y, text)\<close> has
  padding 10 and outline thickness 10 (\<^verbatim>\<open>setOutline(1, 10)\<close> is colour 1, thickness
  10), so its size is the text width plus 40 by the font height plus 40.
\<close>

theorem autoResize_size:
  "obj_width (autoResize textWidth fontHeight init this)
      = textWidth (label_text this) + uint (xPad this) * 2 + uint (outlineThickness this) * 2
   \<and> obj_height (autoResize textWidth fontHeight init this)
      = fontHeight + uint (yPad this) * 2 + uint (outlineThickness this) * 2
   \<and> ((\<not> init \<or> (unbuffered this \<and> frameBuffer (surface this) = None))
        \<and> obj_width (autoResize textWidth fontHeight init this) \<ge> 1
        \<and> obj_height (autoResize textWidth fontHeight init this) \<ge> 1
      \<longrightarrow> surface (autoResize textWidth fontHeight init this)
          = \<lparr>sprite_width = obj_width (autoResize textWidth fontHeight init this),
             sprite_height = obj_height (autoResize textWidth fontHeight init this),
             frameBuffer = Some (replicate
               (nat (obj_width (autoResize textWidth fontHeight init this)
                       * obj_height (autoResize textWidth fontHeight init this))) 0)\<rparr>)
   \<and> (init \<and> \<not> unbuffered this
      \<longrightarrow> surface (autoResize textWidth fontHeight init this) = surface this)
   \<and> xPad (UiLabel_autosized textWidth fontHeight x y str mem) = 10
   \<and> yPad (UiLabel_autosized textWidth fontHeight x y str mem) = 10
   \<and> outlineThickness (UiLabel_autosized textWidth fontHeight x y str mem) = 10
   \<and> obj_width (UiLabel_autosized textWidth fontHeight x y str mem) = textWidth str + 40
   \<and> obj_height (UiLabel_autosized textWidth fontHeight x y str mem) = fontHeight + 40
   \<and> (textWidth str + 40 \<ge> 1 \<and> fontHeight + 40 \<ge> 1
      \<longrightarrow> sprite_width (surface (UiLabel_autosized textWidth fontHeight x y str mem))
            = textWidth str + 40
        \<and> sprite_height (surface (UiLabel_autosized textWidth fontHeight x y str mem))
            = fontHeight + 40)"
proof (intro conjI)
  show "obj_width (autoResize textWidth fontHeight init this)
      = textWidth (label_text this) + uint (xPad this) * 2 + uint (outlineThickness this) * 2"
    by (simp add: autoResize_def createBuffer_def resize_def Let_def)
  show "obj_height (autoResize textWidth fontHeight init this)
      = fontHeight + uint (yPad this) * 2 + uint (outlineThickness this) * 2"
    by (simp add: autoResize_def createBuffer_def resize_def Let_def)
  show "(\<not> init \<or> (unbuffered this \<and> frameBuffer (surface this) = None))
        \<and> obj_width (autoResize textWidth fontHeight init this) \<ge> 1
        \<and> obj_height (autoResize textWidth fontHeight init this) \<ge> 1
      \<longrightarrow> surface (autoResize textWidth fontHeight init this)
          = \<lparr>sprite_width = obj_width (autoResize textWidth fontHeight init this),
             sprite_height = obj_height (autoResize textWidth fontHeight init this),
             frameBuffer = Some (replicate
               (nat (obj_width (autoResize textWidth fontHeight init this)
                       * obj_height (autoResize textWidth fontHeight init this))) 0)\<rparr>"
    by (auto simp: autoResize_def createBuffer_def resize_def createSprite_def deleteSprite_def
          Let_def)
  show "init \<and> \<not> unbuffered this
      \<longrightarrow> surface (autoResize textWidth fontHeight init this) = surface this"
    by (simp add: autoResize_def createBuffer_def Let_def)
  show "xPad (UiLabel_autosized textWidth fontHeight x y str mem) = 10"
    "yPad (UiLabel_autosized textWidth fontHeight x y str mem) = 10"
    "outlineThickness (UiLabel_autosized textWidth fontHeight x y str mem) = 10"
    "obj_width (UiLabel_autosized textWidth fontHeight x y str mem) = textWidth str + 40"
    "obj_height (UiLabel_autosized textWidth fontHeight x y str mem) = fontHeight + 40"
    by (simp_all add: autosized_before_resize autoResize_def createBuffer_def Let_def)
  show "textWidth str + 40 \<ge> 1 \<and> fontHeight + 40 \<ge> 1
      \<longrightarrow> sprite_width (surface (UiLabel_autosized textWidth fontHeight x y str mem))
            = textWidth str + 40
        \<and> sprite_height (surface (UiLabel_autosized textWidth fontHeight x y str mem))
            = fontHeight + 40"
    by (simp add: autosized_before_resize autoResize_def createBuffer_def createSprite_def
          TFT_eSprite_def Let_def)
qed

text \<open>
  The scenario of the claim: a label at (10, 10) with the text \<^verbatim>\<open>Hi\<close>, text width 20
  and font height 14 is 60 by 54 pixels, not 42 by 36.
\<close>

theorem autoResize_size_counterexample:
  "sprite_width (surface (UiLabel_autosized (\<lambda>s. 20) 14 10 10 ''Hi'' (raw UiLabel))) = 60
   \<and> sprite_height (surface (UiLabel_autosized (\<lambda>s. 20) 14 10 10 ''Hi'' (raw UiLabel))) = 54
   \<and> sprite_width (surface (UiLabel_autosized (\<lambda>s. 20) 14 10 10 ''Hi'' (raw UiLabel))) \<noteq> 42
   \<and> sprite_height (surface (UiLabel_autosized (\<lambda>s. 20) 14 10 10 ''Hi'' (raw UiLabel))) \<noteq> 36"
  by (simp add: autosized_before_resize autoResize_def createBuffer_def createSprite_def
          TFT_eSprite_def Let_def)

theorem autoResize_size_witness:
  "obj_width (UiLabel_autosized (\<lambda>s. 20) 14 10 10 ''Hi'' (raw UiLabel)) = 60
   \<and> obj_height (UiLabel_autosized (\<lambda>s. 20) 14 10 10 ''Hi'' (raw UiLabel)) = 54
   \<and> sprite_width (surface (UiLabel_autosized (\<lambda>s. 20) 14 10 10 ''Hi'' (raw UiLabel))) = 60
   \<and> sprite_height (surface (UiLabel_autosized (\<lambda>s. 20) 14 10 10 ''Hi'' (raw UiLabel))) = 54
   \<and> outlineThickness (UiLabel_autosized (\<lambda>s. 20) 14 10 10 ''Hi'' (raw UiLabel)) = 10"
  using autoResize_size [of "\<lambda>s. 20" 14 True "raw UiLabel" 10 10 "''Hi''" "raw UiLabel"]
  by simp

lemma narrowLabel_fields:
  "obj_width narrowLabel = 70" "xPad narrowLabel = 10" "outlineThickness narrowLabel = 10"
  "label_text narrowLabel = ''abcdef''"
  by (simp_all add: narrowLabel_def UiLabel_init_def UiObj_init_def setOutline_def
        initDefaults_def Let_def)

lemma twoLineLabel_fields:
  "obj_width twoLineLabel = 60" "xPad twoLineLabel = 10" "outlineThickness twoLineLabel = 10"
  "label_text twoLineLabel = [CHR ''a'', CHR ''b'', CHR 0x0A, CHR ''c'', CHR ''d'']"
  by (simp_all add: twoLineLabel_def UiLabel_init_def UiObj_init_def setOutline_def
        initDefaults_def Let_def)

lemma walkBack_abcdef: "walkBack ''abcdef'' 0 6 = 0"
  by (simp add: walkBack.simps charAt_def Let_def)

lemma lineLimit_narrow: "lineLimit monospace narrowLabel ''abcdef'' 0 = 0"
  by (simp add: lineLimit_def shrinkLine.simps walkBack_abcdef substring_def monospace_def
        narrowLabel_fields Let_def)

lemma lineLimit_twoLine:
  "lineLimit monospace twoLineLabel [CHR ''a'', CHR ''b'', CHR 0x0A, CHR ''c'', CHR ''d''] 0 = 2"
  "lineLimit monospace twoLineLabel [CHR ''a'', CHR ''b'', CHR 0x0A, CHR ''c'', CHR ''d''] 2 = 2"
  by (simp_all add: lineLimit_def shrinkLine.simps substring_def monospace_def
        twoLineLabel_fields Let_def)

lemma drawLines_stuck:
  assumes "lineLimit textWidth this (label_text this) stuck = stuck"
    and "stuck mod 2 ^ 32 < int (length (label_text this))"
  shows "drawLines textWidth this stuck stuck drawnLines = None"
proof (rule ccontr)
  assume "drawLines textWidth this stuck stuck drawnLines \<noteq> None"
  then obtain r where r: "drawLines textWidth this stuck stuck drawnLines = Some r" by auto
  have "\<not> (tw = textWidth \<and> obj = this \<and> ls = stuck \<and> le = stuck)"
    if "drawLines tw obj ls le dl = Some r'" for tw obj ls le dl r'
    using that
  proof (induction rule: drawLines.raw_induct [rotated 1, consumes 1])
    case (1 f tw obj ls le dl r')
    show ?case
    proof
      assume e: "tw = textWidth \<and> obj = this \<and> ls = stuck \<and> le = stuck"
      with 1(2) assms have "f textWidth this stuck stuck
          (dl @ [substring (label_text this) stuck stuck]) = Some r'"
        by (simp add: Let_def)
      from 1(1) [OF this] show False by simp
    qed
  qed
  from this [OF r] show False by simp
qed

text \<open>
  Claim C8, on the code. The claim says that a line without a space is broken at a
  character, so that every line is non-empty and the line start advances. In
  \<^verbatim>\<open>lineLimit\<close> the walk backwards stops only at a space or at the line start: for
  \<^verbatim>\<open>abcdef\<close> in a text area of 30 pixels it returns the line start itself, the line
  is empty, and the loop of \<^verbatim>\<open>drawMultilineText\<close> never ends. The first line also
  always ends at the first line break of the whole text, not at the next one after the
  line start: once the line start has reached it, \<^verbatim>\<open>lineLimit\<close> returns the line
  start again.
\<close>

theorem lineLimit_makes_no_progress:
  "lineLimit monospace narrowLabel (label_text narrowLabel) 0 = 0
   \<and> drawText monospace narrowLabel = None
   \<and> lineLimit monospace twoLineLabel (label_text twoLineLabel) 0 = 2
   \<and> lineLimit monospace twoLineLabel (label_text twoLineLabel) 2 = 2
   \<and> drawLines monospace twoLineLabel 2 2 [''ab''] = None"
proof (intro conjI)
  show a: "lineLimit monospace narrowLabel (label_text narrowLabel) 0 = 0"
    by (simp add: narrowLabel_fields lineLimit_narrow)
  have "drawMultilineText monospace narrowLabel = None"
    unfolding drawMultilineText_def
    by (rule drawLines_stuck) (simp_all add: a, simp add: narrowLabel_fields)
  then show "drawText monospace narrowLabel = None"
    by (simp add: drawText_def monospace_def narrowLabel_fields)
  show "lineLimit monospace twoLineLabel (label_text twoLineLabel) 0 = 2"
    by (simp add: twoLineLabel_fields lineLimit_twoLine)
  show b: "lineLimit monospace twoLineLabel (label_text twoLineLabel) 2 = 2"
    by (simp add: twoLineLabel_fields lineLimit_twoLine)
  show "drawLines monospace twoLineLabel 2 2 [''ab''] = None"
    by (rule drawLines_stuck) (simp_all add: b, simp add: twoLineLabel_fields)
qed

end
